theory Spec2Isabelle
  imports Complex_Main "HOL-Library.Word"
begin

section \<open>Byte buffers and Python slicing\<close>

text \<open>
  A Python \<open>bytes\<close> value is a list of 8-bit words. \<open>b.startswith(p)\<close> compares the
  first \<open>len(p)\<close> bytes of \<open>b\<close> with \<open>p\<close> (and is false when \<open>b\<close> is shorter), and a slice
  \<open>b[i:j]\<close> with \<open>0 \<le> i \<le> j\<close> is clipped to the length of \<open>b\<close>; neither raises.
\<close>

type_synonym bytes = "8 word list"

definition startswith :: "'a list \<Rightarrow> 'a list \<Rightarrow> bool" where
  "startswith s p = (take (length p) s = p)"

definition slice :: "nat \<Rightarrow> nat \<Rightarrow> 'a list \<Rightarrow> 'a list" where
  "slice i j s = take (j - i) (drop i s)"

section \<open>Format Sniffer (\<open>FaceSwapService._validate_image\<close>, \<open>_get_mime_type\<close>)\<close>

text \<open>The byte literals of lines 51 to 55 and 61 to 65 of \<open>main.py\<close>.\<close>

definition sig_jpeg :: bytes where
  "sig_jpeg = [0xFF, 0xD8, 0xFF]"

definition sig_png :: bytes where
  "sig_png = [0x89, 0x50, 0x4E, 0x47, 0x0D, 0x0A, 0x1A, 0x0A]"

definition sig_gif87a :: bytes where
  "sig_gif87a = [0x47, 0x49, 0x46, 0x38, 0x37, 0x61]"

definition sig_gif89a :: bytes where
  "sig_gif89a = [0x47, 0x49, 0x46, 0x38, 0x39, 0x61]"

definition sig_riff :: bytes where
  "sig_riff = [0x52, 0x49, 0x46, 0x46]"

definition sig_webp :: bytes where
  "sig_webp = [0x57, 0x45, 0x42, 0x50]"

definition sig_bm :: bytes where
  "sig_bm = [0x42, 0x4D]"

definition validate_image :: "bytes \<Rightarrow> bool" where
  "validate_image image_data =
     (let header = take 12 image_data in
        startswith header sig_jpeg
      \<or> startswith header sig_png
      \<or> startswith header sig_gif87a \<or> startswith header sig_gif89a
      \<or> (startswith header sig_riff \<and> slice 8 12 header = sig_webp)
      \<or> startswith header sig_bm)"

definition get_mime_type :: "bytes \<Rightarrow> string" where
  "get_mime_type image_data =
     (let header = take 12 image_data in
        if startswith header sig_jpeg then ''image/jpeg''
        else if startswith header sig_png then ''image/png''
        else if startswith header sig_gif87a \<or> startswith header sig_gif89a then ''image/gif''
        else if startswith header sig_riff \<and> slice 8 12 header = sig_webp then ''image/webp''
        else if startswith header sig_bm then ''image/bmp''
        else ''image/jpeg'')"

subsection \<open>The classification as the specification words it\<close>

text \<open>
  The specification lists the signatures by the byte offsets they occupy and gives a
  priority order. \<open>spec_sig_at off sg d\<close> says that the bytes of \<open>d\<close> from offset \<open>off\<close> on
  are \<open>sg\<close>, written without \<open>take\<close> or \<open>drop\<close>: \<open>d\<close> splits into \<open>off\<close> bytes, then
  \<open>sg\<close>, then a rest.
\<close>

datatype image_format = JPEG | PNG | GIF | WEBP | BMP

definition spec_sig_at :: "nat \<Rightarrow> bytes \<Rightarrow> bytes \<Rightarrow> bool" where
  "spec_sig_at off sg d = (\<exists>a r. length a = off \<and> d = a @ sg @ r)"

definition spec_format :: "bytes \<Rightarrow> image_format option" where
  "spec_format d =
     (if spec_sig_at 0 sig_jpeg d then Some JPEG
      else if spec_sig_at 0 sig_png d then Some PNG
      else if spec_sig_at 0 sig_gif87a d then Some GIF
      else if spec_sig_at 0 sig_gif89a d then Some GIF
      else if spec_sig_at 0 sig_riff d \<and> spec_sig_at 8 sig_webp d then Some WEBP
      else if spec_sig_at 0 sig_bm d then Some BMP
      else None)"

fun spec_mime :: "image_format \<Rightarrow> string" where
  "spec_mime JPEG = ''image/jpeg''"
| "spec_mime PNG = ''image/png''"
| "spec_mime GIF = ''image/gif''"
| "spec_mime WEBP = ''image/webp''"
| "spec_mime BMP = ''image/bmp''"

section \<open>Text, JSON values and exceptions\<close>

text \<open>
  Text is a list of 8-bit characters. An HTTP header value reaches the handler decoded
  as Latin-1, one character per byte; the Chinese message literals of \<open>main.py\<close> are
  written by their UTF-8 encoding.

  \<open>str.lower()\<close> on Latin-1 text maps \<open>A..Z\<close> and the accented capitals
  \<open>0xC0..0xDE\<close> (but not the multiplication sign \<open>0xD7\<close>) to the letter 32 places
  further on and leaves every other character alone.
\<close>

definition lower_char :: "char \<Rightarrow> char" where
  "lower_char c =
     (let n = (of_char c :: nat) in
        if (65 \<le> n \<and> n \<le> 90) \<or> (192 \<le> n \<and> n \<le> 222 \<and> n \<noteq> 215)
        then char_of (n + 32) else c)"

definition py_lower :: "string \<Rightarrow> string" where
  "py_lower s = map lower_char s"

text \<open>\<open>s.partition(' ')\<close>: the text before the first space, the separator found
  (empty when there is none) and the text after it.\<close>

fun partition_space :: "string \<Rightarrow> string \<times> string \<times> string" where
  "partition_space [] = ([], [], [])"
| "partition_space (c # cs) =
     (if c = CHR '' '' then ([], [c], cs)
      else (case partition_space cs of (a, sep, b) \<Rightarrow> (c # a, sep, b)))"

text \<open>An f-string prints the value \<open>None\<close> of an unset environment variable as the
  four letters \<open>None\<close>.\<close>

fun py_str :: "string option \<Rightarrow> string" where
  "py_str None = ''None''"
| "py_str (Some s) = s"

text \<open>
  What \<open>resp.json()\<close> returns. A JSON number without fraction or exponent is a Python
  \<open>int\<close>; any other number is a \<open>float\<close>, kept here by its exact value when finite.
\<close>

datatype json =
    JNull
  | JBool bool
  | JInt int
  | JFloat rat
  | JNonFinite
  | JStr string
  | JList "json list"
  | JObj "(string \<times> json) list"

text \<open>
  The exceptions that travel through the handler. Every one of these classes derives
  from Python's \<open>Exception\<close>; in particular FastAPI's \<open>HTTPException\<close> does (through
  Starlette's class of the same name). The detail of the \<open>HTTPException\<close> raised on
  line 151 is the f-string \<open>"<prefix>{str(e)}"\<close> around the caught exception \<open>e\<close>;
  it is kept as \<open>ProcessingFailed e\<close>.
\<close>

datatype exn =
    HTTPException nat detail
  | Exception string
  | KeyError
  | IndexError
  | TypeError
  | AttributeError
  | JSONDecodeError
  | HTTPError int
  | FileNotFoundError
  | LibraryError string
and detail =
    Detail string
  | ProcessingFailed exn

fun is_Exception :: "exn \<Rightarrow> bool" where
  "is_Exception (HTTPException c d) = True"
| "is_Exception (Exception m) = True"
| "is_Exception KeyError = True"
| "is_Exception IndexError = True"
| "is_Exception TypeError = True"
| "is_Exception AttributeError = True"
| "is_Exception JSONDecodeError = True"
| "is_Exception (HTTPError c) = True"
| "is_Exception FileNotFoundError = True"
| "is_Exception (LibraryError m) = True"

text \<open>The message literals of lines 81, 96, 97, 131 and 140, UTF-8 encoded.\<close>

definition msg_create_failed :: string where
  "msg_create_failed =
     ''BeArt '' @ [CHR 0xE4, CHR 0xBB, CHR 0xBB, CHR 0xE5, CHR 0x8A, CHR 0xA1, CHR 0xE5, CHR 0x88,
       CHR 0x9B, CHR 0xE5, CHR 0xBB, CHR 0xBA, CHR 0xE5, CHR 0xA4, CHR 0xB1, CHR 0xE8, CHR 0xB4,
       CHR 0xA5] @ '': ''"

definition msg_fetch_failed :: string where
  "msg_fetch_failed =
     [CHR 0xE6, CHR 0x8D, CHR 0xA2, CHR 0xE8, CHR 0x84, CHR 0xB8, CHR 0xE7, CHR 0xBB, CHR 0x93,
      CHR 0xE6, CHR 0x9E, CHR 0x9C, CHR 0xE8, CHR 0x8E, CHR 0xB7, CHR 0xE5, CHR 0x8F, CHR 0x96,
      CHR 0xE5, CHR 0xA4, CHR 0xB1, CHR 0xE8, CHR 0xB4, CHR 0xA5]"

definition msg_max_retries :: string where
  "msg_max_retries =
     [CHR 0xE8, CHR 0xB6, CHR 0x85, CHR 0xE8, CHR 0xBF, CHR 0x87, CHR 0xE6, CHR 0x9C, CHR 0x80,
      CHR 0xE5, CHR 0xA4, CHR 0xA7, CHR 0xE9, CHR 0x87, CHR 0x8D, CHR 0xE8, CHR 0xAF, CHR 0x95,
      CHR 0xE6, CHR 0xAC, CHR 0xA1, CHR 0xE6, CHR 0x95, CHR 0xB0]"

definition msg_upload_failed :: string where
  "msg_upload_failed =
     [CHR 0xE4, CHR 0xB8, CHR 0x8A, CHR 0xE4, CHR 0xBC, CHR 0xA0, CHR 0xE5, CHR 0xA4, CHR 0xB1,
      CHR 0xE8, CHR 0xB4, CHR 0xA5]"

definition msg_unsupported :: string where
  "msg_unsupported =
     [CHR 0xE5, CHR 0x9B, CHR 0xBE, CHR 0xE7, CHR 0x89, CHR 0x87, CHR 0xE6, CHR 0xA0, CHR 0xBC,
      CHR 0xE5, CHR 0xBC, CHR 0x8F, CHR 0xE4, CHR 0xB8, CHR 0x8D, CHR 0xE6, CHR 0x94, CHR 0xAF,
      CHR 0xE6, CHR 0x8C, CHR 0x81]"

subsection \<open>Python's operations on a decoded JSON value\<close>

text \<open>\<open>v == n\<close> for an integer literal \<open>n\<close>: numbers compare by value (and \<open>True\<close> is
  \<open>1\<close>, \<open>False\<close> is \<open>0\<close>); nothing else equals an integer.\<close>

fun py_eq_int :: "json \<Rightarrow> int \<Rightarrow> bool" where
  "py_eq_int (JInt i) n = (i = n)"
| "py_eq_int (JBool b) n = ((if b then 1 else 0) = n)"
| "py_eq_int (JFloat r) n = (r = of_int n)"
| "py_eq_int v n = False"

text \<open>\<open>v.get(k)\<close>: only a dict has the method; a missing key gives \<open>None\<close>.\<close>

fun dict_get :: "json \<Rightarrow> string \<Rightarrow> exn + json" where
  "dict_get (JObj kvs) k = Inr (case map_of kvs k of None \<Rightarrow> JNull | Some v \<Rightarrow> v)"
| "dict_get v k = Inl AttributeError"

text \<open>\<open>v[k]\<close> for a string key \<open>k\<close>: a dict without the key raises \<open>KeyError\<close>, every
  other value raises \<open>TypeError\<close> (lists and strings take integer indices, the rest
  cannot be subscripted).\<close>

fun subscript_key :: "json \<Rightarrow> string \<Rightarrow> exn + json" where
  "subscript_key (JObj kvs) k = (case map_of kvs k of None \<Rightarrow> Inl KeyError | Some v \<Rightarrow> Inr v)"
| "subscript_key v k = Inl TypeError"

text \<open>\<open>v[0]\<close>: the first element of a list or the first character of a string,
  \<open>IndexError\<close> when it is empty; a decoded dict has string keys only, so \<open>0\<close> is
  never among them.\<close>

fun subscript_0 :: "json \<Rightarrow> exn + json" where
  "subscript_0 (JList []) = Inl IndexError"
| "subscript_0 (JList (x # xs)) = Inr x"
| "subscript_0 (JStr []) = Inl IndexError"
| "subscript_0 (JStr (c # cs)) = Inr (JStr [c])"
| "subscript_0 (JObj kvs) = Inl KeyError"
| "subscript_0 v = Inl TypeError"

definition bind_exn :: "exn + 'a \<Rightarrow> ('a \<Rightarrow> exn + 'b) \<Rightarrow> exn + 'b" where
  "bind_exn r f = (case r of Inl e \<Rightarrow> Inl e | Inr v \<Rightarrow> f v)"

section \<open>The outside world, configuration and state\<close>

text \<open>
  An HTTP response as \<open>requests\<close> hands it over: the status, the body as text, and what
  \<open>resp.json()\<close> makes of the body (\<open>None\<close> when the body is not JSON and the call
  raises), and the body as bytes.
\<close>

record http_resp =
  status_code :: int
  resp_text :: string
  resp_json :: "json option"
  content :: bytes

text \<open>The \<open>files\<close> argument of line 78: field name, then file name, data and MIME
  type, in the order of the dict.\<close>

type_synonym multipart = "(string \<times> string \<times> bytes \<times> string) list"

record cos_call =
  cos_region :: "string option"
  cos_secret_id :: "string option"
  cos_secret_key :: "string option"
  cos_bucket :: "string option"
  cos_local_path :: string
  cos_key :: string

text \<open>
  Everything the program reads from outside, as functions of what it sends. A network
  or SDK call either raises or answers. \<open>get_job j k\<close> answers the \<open>k\<close>-th GET (from 0)
  that one call of \<open>get_face_swap_result\<close> issues for job \<open>j\<close>. The job id and the
  result URL are whatever JSON values the vendor sent; the URL formatting of line 85 is
  not modelled, the oracle is asked by job id. The header set of lines 31 to 45 and 72
  is constant and is left out.
\<close>

record world =
  post_create_job :: "multipart \<Rightarrow> exn + http_resp"
  get_job :: "json \<Rightarrow> nat \<Rightarrow> exn + http_resp"
  get_url :: "json \<Rightarrow> exn + http_resp"
  now_stamp :: string
  rand_suffix :: nat
  cos_upload_file :: "cos_call \<Rightarrow> exn + (string \<rightharpoonup> string)"

text \<open>The module-level configuration of lines 20 to 26.\<close>

record config =
  region :: "string option"
  secret_id :: "string option"
  secret_key :: "string option"
  bucket :: "string option"
  image_output_path :: string
  product_serial :: "string option"
  valid_tokens :: "string list"

datatype event =
    VendorCreateJob multipart
  | VendorGetJob json
  | Sleep int
  | DownloadGet json
  | MakeDirs string
  | WriteFile string
  | CosUpload cos_call
  | RemoveFile string

text \<open>
  The state one request works on: the effects so far, in order, and the local file
  system (files by path, and the directories that exist). Local file-system calls are
  taken to succeed, except \<open>os.remove\<close> of a file that is not there, and a
  downloaded body is taken to arrive whole.
\<close>

record sys_state =
  events :: "event list"
  files :: "string \<rightharpoonup> bytes"
  dirs :: "string set"

definition log_event :: "event \<Rightarrow> sys_state \<Rightarrow> sys_state" where
  "log_event e s = s\<lparr>events := events s @ [e]\<rparr>"

section \<open>External Job Client\<close>

subsection \<open>\<open>create_face_swap_job\<close> (lines 69 to 81)\<close>

definition job_files :: "bytes \<Rightarrow> bytes \<Rightarrow> multipart" where
  "job_files source_image target_image =
     [(''target_image'', ''target.jpg'', source_image, get_mime_type source_image),
      (''swap_image'', ''source.jpg'', target_image, get_mime_type target_image)]"

text \<open>Lines 79 to 81: what the function makes of the response.\<close>

definition create_job_result :: "http_resp \<Rightarrow> exn + json" where
  "create_job_result resp =
     (if status_code resp = 200 then
        (case resp_json resp of
           None \<Rightarrow> Inl JSONDecodeError
         | Some data \<Rightarrow>
             bind_exn (dict_get data ''code'') (\<lambda>code.
               if py_eq_int code 100000
               then bind_exn (subscript_key data ''result'') (\<lambda>r. subscript_key r ''job_id'')
               else Inl (Exception (msg_create_failed @ resp_text resp))))
      else Inl (Exception (msg_create_failed @ resp_text resp)))"

definition create_face_swap_job ::
  "world \<Rightarrow> bytes \<Rightarrow> bytes \<Rightarrow> sys_state \<Rightarrow> (exn + json) \<times> sys_state" where
  "create_face_swap_job w source_image target_image s =
     (let fs = job_files source_image target_image;
          s1 = log_event (VendorCreateJob fs) s
      in case post_create_job w fs of
           Inl e \<Rightarrow> (Inl e, s1)
         | Inr resp \<Rightarrow> (create_job_result resp, s1))"

subsection \<open>\<open>get_face_swap_result\<close> (lines 84 to 97)\<close>

text \<open>One pass through the loop body after the GET has answered: return a value, go
  round again, or raise.\<close>

datatype poll_outcome = Return json | Continue | Raise exn

definition poll_step :: "http_resp \<Rightarrow> poll_outcome" where
  "poll_step resp =
     (if status_code resp = 200 then
        (case resp_json resp of
           None \<Rightarrow> Raise JSONDecodeError
         | Some data \<Rightarrow>
             (case dict_get data ''code'' of
                Inl e \<Rightarrow> Raise e
              | Inr code \<Rightarrow>
                  if py_eq_int code 100000 then
                    (case bind_exn (bind_exn (subscript_key data ''result'')
                                      (\<lambda>r. subscript_key r ''output'')) subscript_0 of
                       Inl e \<Rightarrow> Raise e
                     | Inr v \<Rightarrow> Return v)
                  else if py_eq_int code 300001 then Continue
                  else Raise (Exception msg_fetch_failed)))
      else Raise (Exception msg_fetch_failed))"

text \<open>The \<open>for\<close> loop: \<open>n\<close> passes are left and \<open>k\<close> have been made.\<close>

fun poll_loop ::
  "world \<Rightarrow> json \<Rightarrow> int \<Rightarrow> nat \<Rightarrow> nat \<Rightarrow> sys_state \<Rightarrow> (exn + json) \<times> sys_state" where
  "poll_loop w job_id interval 0 k s = (Inl (Exception msg_max_retries), s)"
| "poll_loop w job_id interval (Suc n) k s =
     (case get_job w job_id k of
        Inl e \<Rightarrow> (Inl e, log_event (VendorGetJob job_id) s)
      | Inr resp \<Rightarrow>
          (case poll_step resp of
             Return v \<Rightarrow> (Inr v, log_event (VendorGetJob job_id) s)
           | Raise e \<Rightarrow> (Inl e, log_event (VendorGetJob job_id) s)
           | Continue \<Rightarrow>
               poll_loop w job_id interval n (Suc k)
                 (log_event (Sleep interval) (log_event (VendorGetJob job_id) s))))"

text \<open>\<open>range(retries)\<close> is empty for a negative \<open>retries\<close>.\<close>

definition get_face_swap_result ::
  "world \<Rightarrow> json \<Rightarrow> int \<Rightarrow> int \<Rightarrow> sys_state \<Rightarrow> (exn + json) \<times> sys_state" where
  "get_face_swap_result w job_id retries interval s =
     poll_loop w job_id interval (nat retries) 0 s"

definition default_retries :: int where
  "default_retries = 30"

definition default_interval :: int where
  "default_interval = 2"

section \<open>Authentication (\<open>verify_auth_token\<close>, lines 100 to 106)\<close>

definition verify_auth_token :: "string list \<Rightarrow> string option \<Rightarrow> exn + string" where
  "verify_auth_token tokens authorization =
     (case authorization of
        None \<Rightarrow> Inl (HTTPException 401 (Detail ''Missing Authorization Header''))
      | Some h \<Rightarrow>
          if h = [] then Inl (HTTPException 401 (Detail ''Missing Authorization Header''))
          else (case partition_space h of
                  (scheme, sep, token) \<Rightarrow>
                    if py_lower scheme \<noteq> ''bearer'' \<or> token \<notin> set tokens
                    then Inl (HTTPException 403 (Detail ''Invalid or Expired Token''))
                    else Inr token))"

section \<open>Result Fetcher (lines 109 to 122)\<close>

text \<open>Decimal printing of a natural number, as \<open>{random.randint(1000,9999)}\<close> in the
  f-string of line 110 prints it.\<close>

definition digit_char :: "nat \<Rightarrow> char" where
  "digit_char n = ''0123456789'' ! n"

fun str_nat :: "nat \<Rightarrow> string" where
  "str_nat n = (if n < 10 then [digit_char n] else str_nat (n div 10) @ [digit_char (n mod 10)])"

declare str_nat.simps [simp del]

definition generate_filename :: "world \<Rightarrow> string \<Rightarrow> string" where
  "generate_filename w ext =
     ''faceswap_'' @ now_stamp w @ ''_'' @ str_nat (rand_suffix w) @ ''.'' @ ext"

text \<open>\<open>os.path.join(a, b)\<close> on POSIX: an absolute \<open>b\<close> replaces \<open>a\<close>; otherwise a slash
  is put between them unless \<open>a\<close> is empty or ends in one.\<close>

definition os_path_join :: "string \<Rightarrow> string \<Rightarrow> string" where
  "os_path_join a b =
     (if startswith b ''/'' then b
      else if a = [] \<or> last a = CHR ''/'' then a @ b
      else a @ ''/'' @ b)"

definition path_exists :: "sys_state \<Rightarrow> string \<Rightarrow> bool" where
  "path_exists s p = (p \<in> dirs s \<or> files s p \<noteq> None)"

definition makedirs :: "string \<Rightarrow> sys_state \<Rightarrow> sys_state" where
  "makedirs p s = log_event (MakeDirs p) (s\<lparr>dirs := insert p (dirs s)\<rparr>)"

definition write_file :: "string \<Rightarrow> bytes \<Rightarrow> sys_state \<Rightarrow> sys_state" where
  "write_file p b s = log_event (WriteFile p) (s\<lparr>files := (files s)(p \<mapsto> b)\<rparr>)"

text \<open>\<open>raise_for_status\<close> raises for the statuses 400 to 599 and for no other.\<close>

definition download_image ::
  "world \<Rightarrow> json \<Rightarrow> string \<Rightarrow> sys_state \<Rightarrow> (exn + string \<times> string) \<times> sys_state" where
  "download_image w url output_path s =
     (let s1 = log_event (DownloadGet url) s in
      case get_url w url of
        Inl e \<Rightarrow> (Inl e, s1)
      | Inr r \<Rightarrow>
          if 400 \<le> status_code r \<and> status_code r < 600 then (Inl (HTTPError (status_code r)), s1)
          else
            (let s2 = (if \<not> path_exists s1 output_path then makedirs output_path s1 else s1);
                 filename = generate_filename w ''jpg'';
                 path = os_path_join output_path filename
             in (Inr (filename, path), write_file path (content r) s2)))"

section \<open>Storage Publisher (\<open>upload_to_cos\<close>, lines 125 to 131)\<close>

definition upload_to_cos ::
  "world \<Rightarrow> string option \<Rightarrow> string option \<Rightarrow> string option \<Rightarrow> string option \<Rightarrow> string \<Rightarrow> string
     \<Rightarrow> sys_state \<Rightarrow> (exn + string) \<times> sys_state" where
  "upload_to_cos w rgn sid skey bkt file_name base_path s =
     (let local_path = os_path_join base_path file_name;
          call = \<lparr>cos_region = rgn, cos_secret_id = sid, cos_secret_key = skey,
                  cos_bucket = bkt, cos_local_path = local_path, cos_key = file_name\<rparr>;
          s1 = log_event (CosUpload call) s
      in case cos_upload_file w call of
           Inl e \<Rightarrow> (Inl e, s1)
         | Inr resp \<Rightarrow>
             if resp ''ETag'' \<noteq> None
             then (Inr (''https://'' @ py_str bkt @ ''.cos.'' @ py_str rgn @ ''.myqcloud.com/''
                        @ file_name), s1)
             else (Inl (Exception msg_upload_failed), s1))"

section \<open>HTTP Endpoint (\<open>face_swap\<close>, lines 134 to 151)\<close>

definition os_remove :: "string \<Rightarrow> sys_state \<Rightarrow> (exn + unit) \<times> sys_state" where
  "os_remove p s =
     (if files s p = None then (Inl FileNotFoundError, s)
      else (Inr (), log_event (RemoveFile p) (s\<lparr>files := (files s)(p := None)\<rparr>)))"

record request =
  authorization :: "string option"
  source_data :: bytes
  target_data :: bytes

text \<open>The success body: \<open>image_url\<close> and \<open>original_url\<close>.\<close>

datatype response =
    Success string json
  | Error nat detail

text \<open>The body of the \<open>try\<close>, lines 137 to 147.\<close>

definition face_swap_try ::
  "config \<Rightarrow> world \<Rightarrow> request \<Rightarrow> sys_state \<Rightarrow> (exn + string \<times> json) \<times> sys_state" where
  "face_swap_try cfg w req s =
     (if \<not> validate_image (source_data req) \<or> \<not> validate_image (target_data req)
      then (Inl (HTTPException 400 (Detail msg_unsupported)), s)
      else
        (case create_face_swap_job w (source_data req) (target_data req) s of
           (Inl e, s1) \<Rightarrow> (Inl e, s1)
         | (Inr job_id, s1) \<Rightarrow>
        (case get_face_swap_result w job_id default_retries default_interval s1 of
           (Inl e, s2) \<Rightarrow> (Inl e, s2)
         | (Inr result_url, s2) \<Rightarrow>
        (case download_image w result_url (image_output_path cfg) s2 of
           (Inl e, s3) \<Rightarrow> (Inl e, s3)
         | (Inr (filename, path), s3) \<Rightarrow>
        (case upload_to_cos w (region cfg) (secret_id cfg) (secret_key cfg) (bucket cfg)
                filename (image_output_path cfg) s3 of
           (Inl e, s4) \<Rightarrow> (Inl e, s4)
         | (Inr cos_url, s4) \<Rightarrow>
        (case os_remove path s4 of
           (Inl e, s5) \<Rightarrow> (Inl e, s5)
         | (Inr u, s5) \<Rightarrow> (Inr (cos_url, result_url), s5)))))))"

text \<open>
  The handler with its \<open>except Exception\<close> clause (lines 149 to 151): whatever the
  body raised that is an \<open>Exception\<close> is raised again as a 500.
\<close>

definition face_swap ::
  "config \<Rightarrow> world \<Rightarrow> request \<Rightarrow> sys_state \<Rightarrow> (exn + string \<times> json) \<times> sys_state" where
  "face_swap cfg w req s =
     (case face_swap_try cfg w req s of
        (Inr v, s') \<Rightarrow> (Inr v, s')
      | (Inl e, s') \<Rightarrow>
          if is_Exception e then (Inl (HTTPException 500 (ProcessingFailed e)), s')
          else (Inl e, s'))"

text \<open>What the framework answers for an exception that leaves a dependency or the
  handler: an \<open>HTTPException\<close> becomes a response with its status and detail, anything
  else the plain 500.\<close>

fun error_response :: "exn \<Rightarrow> response" where
  "error_response (HTTPException c d) = Error c d"
| "error_response e = Error 500 (Detail ''Internal Server Error'')"

text \<open>The route: the dependency \<open>verify_auth_token\<close> runs first, then the handler.\<close>

definition endpoint :: "config \<Rightarrow> world \<Rightarrow> request \<Rightarrow> sys_state \<Rightarrow> response \<times> sys_state" where
  "endpoint cfg w req s =
     (case verify_auth_token (valid_tokens cfg) (authorization req) of
        Inl e \<Rightarrow> (error_response e, s)
      | Inr auth_token \<Rightarrow>
          (case face_swap cfg w req s of
             (Inr (cos_url, result_url), s') \<Rightarrow> (Success cos_url result_url, s')
           | (Inl e, s') \<Rightarrow> (error_response e, s')))"

section \<open>Vocabulary of the specification\<close>

text \<open>
  The words the specification uses about a vendor response. \<open>vendor_code_is resp n\<close>:
  the body is a JSON object whose \<open>code\<close> equals \<open>n\<close>. \<open>still_processing x\<close>: the call
  answered with HTTP 200 and vendor code 300001. \<open>spec_output resp\<close>: the \<open>output\<close>
  entry of the body's \<open>result\<close> object.
\<close>

definition vendor_code_is :: "http_resp \<Rightarrow> int \<Rightarrow> bool" where
  "vendor_code_is resp n =
     (case resp_json resp of
        Some (JObj kvs) \<Rightarrow> (case map_of kvs ''code'' of Some c \<Rightarrow> py_eq_int c n | None \<Rightarrow> False)
      | _ \<Rightarrow> False)"

definition still_processing :: "exn + http_resp \<Rightarrow> bool" where
  "still_processing x =
     (case x of Inl e \<Rightarrow> False
      | Inr resp \<Rightarrow> status_code resp = 200 \<and> vendor_code_is resp 300001)"

definition spec_output :: "http_resp \<Rightarrow> json option" where
  "spec_output resp =
     (case resp_json resp of
        Some (JObj kvs) \<Rightarrow>
          (case map_of kvs ''result'' of
             Some (JObj rs) \<Rightarrow> map_of rs ''output''
           | _ \<Rightarrow> None)
      | _ \<Rightarrow> None)"

text \<open>The effects of \<open>k\<close> unsuccessful polls: a GET and a sleep, \<open>k\<close> times over.\<close>

definition poll_trace :: "json \<Rightarrow> int \<Rightarrow> nat \<Rightarrow> event list" where
  "poll_trace job_id interval k = concat (replicate k [VendorGetJob job_id, Sleep interval])"

definition add_events :: "event list \<Rightarrow> sys_state \<Rightarrow> sys_state" where
  "add_events es s = s\<lparr>events := events s @ es\<rparr>"

text \<open>The calls that go to the vendor, and how many of them a trace holds.\<close>

fun is_vendor_call :: "event \<Rightarrow> bool" where
  "is_vendor_call (VendorCreateJob fs) = True"
| "is_vendor_call (VendorGetJob j) = True"
| "is_vendor_call e = False"

definition vendor_calls :: "event list \<Rightarrow> nat" where
  "vendor_calls es = length (filter is_vendor_call es)"

section \<open>Example runs\<close>

text \<open>
  Concrete responses, a world built from them and the state a request starts in; the
  theorems below are exercised on these. \<open>created_resp\<close>, \<open>pending_resp\<close> and
  \<open>done_resp\<close> are the vendor's answers of the specification's end-to-end scenario.
\<close>

definition vendor_resp :: "int \<Rightarrow> string \<Rightarrow> json \<Rightarrow> http_resp" where
  "vendor_resp st txt j = \<lparr>status_code = st, resp_text = txt, resp_json = Some j, content = []\<rparr>"

definition pending_resp :: http_resp where
  "pending_resp = vendor_resp 200 ''processing'' (JObj [(''code'', JInt 300001)])"

definition done_resp :: http_resp where
  "done_resp = vendor_resp 200 ''done''
     (JObj [(''code'', JInt 100000),
            (''result'', JObj [(''output'', JList [JStr ''https://vendor/out.jpg''])])])"

definition created_resp :: http_resp where
  "created_resp = vendor_resp 200 ''created''
     (JObj [(''code'', JInt 100000), (''result'', JObj [(''job_id'', JStr ''J1'')])])"

definition refused_resp :: http_resp where
  "refused_resp = vendor_resp 200 ''refused'' (JObj [(''code'', JInt 400001)])"

definition image_resp :: http_resp where
  "image_resp = \<lparr>status_code = 200, resp_text = [], resp_json = None,
                  content = sig_jpeg @ [0xE0, 0x00, 0x10]\<rparr>"

definition example_world ::
  "http_resp \<Rightarrow> (nat \<Rightarrow> exn + http_resp) \<Rightarrow> (string \<rightharpoonup> string) \<Rightarrow> world" where
  "example_world created polls cosr =
     \<lparr>post_create_job = (\<lambda>fs. Inr created),
      get_job = (\<lambda>j. polls),
      get_url = (\<lambda>u. Inr image_resp),
      now_stamp = ''20240101120000'',
      rand_suffix = 1234,
      cos_upload_file = (\<lambda>c. Inr cosr)\<rparr>"

definition two_pending_then_done :: "nat \<Rightarrow> exn + http_resp" where
  "two_pending_then_done k = (if k < 2 then Inr pending_resp else Inr done_resp)"

definition initial_state :: sys_state where
  "initial_state = \<lparr>events = [], files = Map.empty, dirs = {}\<rparr>"

definition empty_output_resp :: http_resp where
  "empty_output_resp = vendor_resp 200 ''done''
     (JObj [(''code'', JInt 100000), (''result'', JObj [(''output'', JList [])])])"

definition no_result_resp :: http_resp where
  "no_result_resp = vendor_resp 200 ''done'' (JObj [(''code'', JInt 100000)])"

definition no_output_resp :: http_resp where
  "no_output_resp = vendor_resp 200 ''done''
     (JObj [(''code'', JInt 100000), (''result'', JObj [])])"

definition html_resp :: http_resp where
  "html_resp = \<lparr>status_code = 200, resp_text = ''<html>'', resp_json = None, content = []\<rparr>"

definition etag_resp :: "string \<rightharpoonup> string" where
  "etag_resp = [''ETag'' \<mapsto> ''0f343b0931126a20f133d67c2b018a3b'']"

definition example_config :: config where
  "example_config =
     \<lparr>region = Some ''ap-guangzhou'', secret_id = Some ''id'', secret_key = Some ''key'',
      bucket = Some ''faces-1250000000'', image_output_path = ''./output'',
      product_serial = Some ''serial'', valid_tokens = [''token1'', ''token2'']\<rparr>"

definition example_request :: request where
  "example_request =
     \<lparr>authorization = Some ''Bearer token1'',
      source_data = sig_jpeg @ [0xE0, 0x00, 0x10],
      target_data = sig_png @ [0x00, 0x00, 0x00, 0x0D]\<rparr>"

definition text_request :: request where
  "text_request =
     \<lparr>authorization = Some ''Bearer token1'',
      source_data = map of_char ''hello'',
      target_data = sig_png @ [0x00, 0x00, 0x00, 0x0D]\<rparr>"

text \<open>The example request with another \<open>Authorization\<close> header, and a configuration
  whose allow-list holds the empty token.\<close>

definition header_request :: "string \<Rightarrow> request" where
  "header_request h = example_request\<lparr>authorization := Some h\<rparr>"

definition empty_token_config :: config where
  "empty_token_config = example_config\<lparr>valid_tokens := [''token1'', []]\<rparr>"

section \<open>Properties of the Format Sniffer\<close>

lemma take_eq_iff_append: "take (length p) d = p \<longleftrightarrow> (\<exists>r. d = p @ r)"
proof
  assume "take (length p) d = p"
  then have "d = p @ drop (length p) d"
    by (metis append_take_drop_id)
  then show "\<exists>r. d = p @ r" ..
next
  assume "\<exists>r. d = p @ r"
  then show "take (length p) d = p" by auto
qed

lemma startswith_header:
  assumes "length p \<le> 12"
  shows "startswith (take 12 d) p \<longleftrightarrow> spec_sig_at 0 p d"
proof -
  have "take (length p) (take 12 d) = take (length p) d"
    using assms by (simp add: min_def)
  then show ?thesis
    by (simp add: startswith_def spec_sig_at_def take_eq_iff_append)
qed

lemma slice_header:
  assumes "length p = 4"
  shows "slice 8 12 (take 12 d) = p \<longleftrightarrow> spec_sig_at 8 p d"
proof
  assume h: "slice 8 12 (take 12 d) = p"
  have "take 4 (drop 8 d) = p"
    using h by (simp add: slice_def drop_take)
  then have "drop 8 d = p @ drop 4 (drop 8 d)"
    using assms by (metis append_take_drop_id)
  then have d: "d = take 8 d @ p @ drop 4 (drop 8 d)"
    by (metis append_take_drop_id)
  have "length (drop 8 d) \<ge> 4"
    using \<open>take 4 (drop 8 d) = p\<close> assms by (metis length_take min.cobounded1 min.commute)
  then have "length (take 8 d) = 8" by simp
  with d show "spec_sig_at 8 p d"
    unfolding spec_sig_at_def by blast
next
  assume "spec_sig_at 8 p d"
  then obtain a r where "length a = 8" "d = a @ p @ r"
    unfolding spec_sig_at_def by blast
  then show "slice 8 12 (take 12 d) = p"
    using assms by (simp add: slice_def drop_take)
qed

lemmas sig_lengths =
  sig_jpeg_def sig_png_def sig_gif87a_def sig_gif89a_def sig_riff_def sig_webp_def sig_bm_def

lemma validate_image_spec: "validate_image d \<longleftrightarrow> spec_format d \<noteq> None"
  by (simp add: validate_image_def spec_format_def Let_def
      startswith_header slice_header sig_lengths)

lemma get_mime_type_spec:
  "get_mime_type d = (case spec_format d of Some f \<Rightarrow> spec_mime f | None \<Rightarrow> ''image/jpeg'')"
  by (simp add: get_mime_type_def spec_format_def Let_def
      startswith_header slice_header sig_lengths)

lemma validate_image_take12: "validate_image (take 12 d) = validate_image d"
  by (simp add: validate_image_def)

lemma get_mime_type_take12: "get_mime_type (take 12 d) = get_mime_type d"
  by (simp add: get_mime_type_def)

text \<open>The ASCII signatures of the source are the byte lists above.\<close>

lemma sig_ascii:
  "map of_char ''GIF87a'' = sig_gif87a" "map of_char ''GIF89a'' = sig_gif89a"
  "map of_char ''RIFF'' = sig_riff" "map of_char ''WEBP'' = sig_webp"
  "map of_char ''BM'' = sig_bm"
  "0x89 # map of_char (''PNG'' @ [CHR 0x0D, CHR 0x0A, CHR 0x1A, CHR 0x0A]) = sig_png"
  by (simp_all add: sig_lengths)

text \<open>
  C4. Validation accepts a buffer exactly when it carries one of the six signatures
  (JPEG, PNG, GIF87a, GIF89a, RIFF....WEBP, BM) at the stated offsets; MIME resolution
  gives the MIME string of the signature found and \<open>image/jpeg\<close> when there is none, so
  it is total. Both look at the first 12 bytes only.
\<close>

theorem sniffer_classification:
  "(validate_image d \<longleftrightarrow> spec_format d \<noteq> None)
   \<and> get_mime_type d = (case spec_format d of Some f \<Rightarrow> spec_mime f | None \<Rightarrow> ''image/jpeg'')
   \<and> validate_image d = validate_image (take 12 d)
   \<and> get_mime_type d = get_mime_type (take 12 d)"
  using validate_image_spec [of d] get_mime_type_spec [of d]
    validate_image_take12 [of d] get_mime_type_take12 [of d]
  by simp

section \<open>Properties of authentication\<close>

lemma partition_space_app:
  "CHR '' '' \<notin> set a \<Longrightarrow> partition_space (a @ CHR '' '' # b) = (a, '' '', b)"
  by (induction a) auto

lemma partition_space_nosp:
  "CHR '' '' \<notin> set a \<Longrightarrow> partition_space a = (a, [], [])"
  by (induction a) auto

lemma lower_char_space: "lower_char (CHR '' '') = CHR '' ''"
  by (simp add: lower_char_def)

lemma bearer_no_space:
  assumes "py_lower sch = ''bearer''"
  shows "CHR '' '' \<notin> set sch"
proof
  assume "CHR '' '' \<in> set sch"
  then have "lower_char (CHR '' '') \<in> set (py_lower sch)"
    unfolding py_lower_def by (metis image_eqI set_map)
  then show False
    using assms by (simp add: lower_char_space)
qed

text \<open>What \<open>verify_auth_token\<close> answers, by the shape of the header.\<close>

lemma verify_auth_token_split:
  "verify_auth_token vt None = Inl (HTTPException 401 (Detail ''Missing Authorization Header''))"
  "verify_auth_token vt (Some []) = Inl (HTTPException 401 (Detail ''Missing Authorization Header''))"
  "CHR '' '' \<notin> set sch \<Longrightarrow>
     verify_auth_token vt (Some (sch @ '' '' @ tok))
     = (if py_lower sch = ''bearer'' \<and> tok \<in> set vt then Inr tok
        else Inl (HTTPException 403 (Detail ''Invalid or Expired Token'')))"
  "h \<noteq> [] \<Longrightarrow> CHR '' '' \<notin> set h \<Longrightarrow>
     verify_auth_token vt (Some h)
     = (if py_lower h = ''bearer'' \<and> [] \<in> set vt then Inr []
        else Inl (HTTPException 403 (Detail ''Invalid or Expired Token'')))"
  by (auto simp: verify_auth_token_def partition_space_app partition_space_nosp)

text \<open>
  C10. The scheme is compared after lower-casing: whenever the scheme reads \<open>bearer\<close>
  in any capitalisation and is followed by one space and a token of the allow-list,
  authentication succeeds with that token.
\<close>

theorem bearer_scheme_any_case:
  assumes "py_lower sch = ''bearer''" and "tok \<in> set vt"
  shows "verify_auth_token vt (Some (sch @ '' '' @ tok)) = Inr tok"
  using assms bearer_no_space [OF assms(1)]
  by (simp add: verify_auth_token_def partition_space_app)

theorem bearer_scheme_any_case_witness:
  "py_lower ''bearer'' = ''bearer'' \<and> py_lower ''BEARER'' = ''bearer''
   \<and> py_lower ''BeArEr'' = ''bearer''
   \<and> ''token1'' \<in> set [''token1'', ''token2'']
   \<and> verify_auth_token [''token1'', ''token2''] (Some ''bearer token1'') = Inr ''token1''
   \<and> verify_auth_token [''token1'', ''token2''] (Some ''BEARER token1'') = Inr ''token1''
   \<and> verify_auth_token [''token1'', ''token2''] (Some ''BeArEr token1'') = Inr ''token1''"
proof -
  have a: "py_lower ''bearer'' = ''bearer''" by code_simp
  have b: "py_lower ''BEARER'' = ''bearer''" by code_simp
  have c: "py_lower ''BeArEr'' = ''bearer''" by code_simp
  have t: "''token1'' \<in> set [''token1'', ''token2'']" by simp
  show ?thesis
    using a b c t bearer_scheme_any_case [OF a t] bearer_scheme_any_case [OF b t]
      bearer_scheme_any_case [OF c t]
    by simp
qed

section \<open>Properties of the polling loop\<close>

lemma py_eq_int_unique: "py_eq_int c a \<Longrightarrow> py_eq_int c b \<Longrightarrow> a = b"
  by (cases c) (auto split: if_splits)

lemma poll_step_Continue:
  "poll_step resp = Continue \<longleftrightarrow> status_code resp = 200 \<and> vendor_code_is resp 300001"
proof (cases "resp_json resp")
  case None
  then show ?thesis by (simp add: poll_step_def vendor_code_is_def)
next
  case (Some data)
  show ?thesis
  proof (cases data)
    case (JObj kvs)
    have "py_eq_int c 300001 \<Longrightarrow> \<not> py_eq_int c 100000" for c
      using py_eq_int_unique [of c 300001 100000] by auto
    then show ?thesis
      using Some JObj
      by (auto simp: poll_step_def vendor_code_is_def bind_exn_def
          split: option.splits sum.splits)
  qed (use Some in \<open>simp_all add: poll_step_def vendor_code_is_def\<close>)
qed

lemma poll_step_Return:
  assumes "poll_step resp = Return v"
  shows "status_code resp = 200 \<and> vendor_code_is resp 100000"
proof (cases "resp_json resp")
  case None
  then show ?thesis using assms by (simp add: poll_step_def split: if_splits)
next
  case (Some data)
  show ?thesis
  proof (cases data)
    case (JObj kvs)
    then show ?thesis
      using Some assms
      by (auto simp: poll_step_def vendor_code_is_def bind_exn_def
          split: option.splits sum.splits if_splits)
  qed (use Some assms in \<open>simp_all add: poll_step_def split: if_splits\<close>)
qed

lemma still_processingD:
  "still_processing x \<Longrightarrow> \<exists>resp. x = Inr resp \<and> poll_step resp = Continue"
  by (cases x) (simp_all add: still_processing_def poll_step_Continue)

lemma add_events_log: "log_event e s = add_events [e] s"
  by (simp add: log_event_def add_events_def)

lemma add_events_add: "add_events es (add_events ds s) = add_events (ds @ es) s"
  by (simp add: add_events_def)

lemma poll_trace_Suc:
  "poll_trace j iv (Suc k) = [VendorGetJob j, Sleep iv] @ poll_trace j iv k"
  by (simp add: poll_trace_def)

lemma poll_loop_pending:
  "(\<forall>i<k. still_processing (get_job w j (b + i))) \<Longrightarrow> k \<le> n \<Longrightarrow>
   poll_loop w j iv n b s = poll_loop w j iv (n - k) (b + k) (add_events (poll_trace j iv k) s)"
proof (induction k arbitrary: n b s)
  case 0
  then show ?case by (simp add: poll_trace_def add_events_def)
next
  case (Suc k)
  then obtain m where n: "n = Suc m" and km: "k \<le> m"
    by (cases n) auto
  from Suc.prems(1) have "still_processing (get_job w j (b + 0))" by blast
  then obtain resp where r: "get_job w j b = Inr resp" "poll_step resp = Continue"
    using still_processingD by fastforce
  have rest: "\<forall>i<k. still_processing (get_job w j (Suc b + i))"
    using Suc.prems(1) by (metis Suc_less_eq add_Suc_shift)
  show ?case
    using Suc.IH [OF rest km] r n
    by (simp add: add_events_log add_events_add poll_trace_Suc)
qed

lemma poll_loop_exhaust:
  assumes "\<forall>i<n. still_processing (get_job w j i)"
  shows "poll_loop w j iv n 0 s
         = (Inl (Exception msg_max_retries), add_events (poll_trace j iv n) s)"
  using poll_loop_pending [of n w j 0 n iv s] assms by simp

lemma poll_loop_answer:
  assumes "\<forall>i<k. still_processing (get_job w j i)" and "k < n"
  shows "get_job w j k = Inl e \<Longrightarrow>
           poll_loop w j iv n 0 s
           = (Inl e, add_events (poll_trace j iv k @ [VendorGetJob j]) s)"
    and "get_job w j k = Inr resp \<Longrightarrow> poll_step resp = Return v \<Longrightarrow>
           poll_loop w j iv n 0 s
           = (Inr v, add_events (poll_trace j iv k @ [VendorGetJob j]) s)"
    and "get_job w j k = Inr resp \<Longrightarrow> poll_step resp = Raise e \<Longrightarrow>
           poll_loop w j iv n 0 s
           = (Inl e, add_events (poll_trace j iv k @ [VendorGetJob j]) s)"
proof -
  obtain m where m: "n - k = Suc m"
    using assms(2) by (metis Suc_diff_Suc)
  have step: "poll_loop w j iv n 0 s
              = poll_loop w j iv (Suc m) k (add_events (poll_trace j iv k) s)"
    using poll_loop_pending [of k w j 0 n iv s] assms m by simp
  show "get_job w j k = Inl e \<Longrightarrow>
           poll_loop w j iv n 0 s
           = (Inl e, add_events (poll_trace j iv k @ [VendorGetJob j]) s)"
    by (simp add: step add_events_log add_events_add)
  show "get_job w j k = Inr resp \<Longrightarrow> poll_step resp = Return v \<Longrightarrow>
           poll_loop w j iv n 0 s
           = (Inr v, add_events (poll_trace j iv k @ [VendorGetJob j]) s)"
    by (simp add: step add_events_log add_events_add)
  show "get_job w j k = Inr resp \<Longrightarrow> poll_step resp = Raise e \<Longrightarrow>
           poll_loop w j iv n 0 s
           = (Inl e, add_events (poll_trace j iv k @ [VendorGetJob j]) s)"
    by (simp add: step add_events_log add_events_add)
qed

lemma first_answer:
  "(\<forall>i<(n::nat). still_processing (f i))
   \<or> (\<exists>k<n. \<not> still_processing (f k) \<and> (\<forall>i<k. still_processing (f i)))"
proof (cases "\<forall>i<n. still_processing (f i)")
  case True
  then show ?thesis by simp
next
  case False
  then obtain i where i: "i < n" "\<not> still_processing (f i)" by blast
  define P where "P = (\<lambda>i. \<not> still_processing (f i))"
  define k where "k = (LEAST i. P i)"
  have Pi: "P i" using i(2) by (simp add: P_def)
  have "P k"
    unfolding k_def using Pi by (rule LeastI)
  then have "\<not> still_processing (f k)" by (simp add: P_def)
  moreover have "k \<le> i"
    unfolding k_def using Pi by (rule Least_le)
  moreover have "\<forall>i<k. still_processing (f i)"
  proof (intro allI impI)
    fix i assume "i < k"
    then have "\<not> P i" unfolding k_def by (rule not_less_Least)
    then show "still_processing (f i)" by (simp add: P_def)
  qed
  moreover note i(1)
  ultimately have "k < n \<and> \<not> still_processing (f k) \<and> (\<forall>i<k. still_processing (f i))"
    by simp
  then show ?thesis by blast
qed

lemma poll_step_Raise_other:
  assumes "status_code resp \<noteq> 200
           \<or> (\<not> vendor_code_is resp 100000 \<and> \<not> vendor_code_is resp 300001)"
  shows "\<exists>e. poll_step resp = Raise e"
proof (cases "poll_step resp")
  case (Return v)
  then show ?thesis using poll_step_Return assms by blast
next
  case Continue
  then show ?thesis using poll_step_Continue assms by blast
next
  case (Raise e)
  then show ?thesis by simp
qed

lemma poll_step_fetch_failed:
  assumes "status_code resp \<noteq> 200
           \<or> (resp_json resp = Some (JObj kvs)
               \<and> \<not> vendor_code_is resp 100000 \<and> \<not> vendor_code_is resp 300001)"
  shows "poll_step resp = Raise (Exception msg_fetch_failed)"
  using assms
  by (auto simp: poll_step_def vendor_code_is_def split: option.splits)

lemma poll_step_success:
  assumes "status_code resp = 200" and "vendor_code_is resp 100000"
    and "spec_output resp = Some out"
  shows "poll_step resp = (case subscript_0 out of Inl e \<Rightarrow> Raise e | Inr v \<Rightarrow> Return v)"
  using assms
  by (auto simp: poll_step_def vendor_code_is_def spec_output_def bind_exn_def
      split: option.splits json.splits sum.splits)

lemma poll_step_Return_output:
  assumes "poll_step resp = Return v"
  shows "\<exists>out. spec_output resp = Some out \<and> subscript_0 out = Inr v"
proof -
  from assms obtain data where d: "resp_json resp = Some data" "status_code resp = 200"
    by (auto simp: poll_step_def split: if_splits option.splits)
  show ?thesis
  proof (cases data)
    case (JObj kvs)
    show ?thesis
    proof (cases "map_of kvs ''result''")
      case None
      then show ?thesis using assms d JObj
        by (auto simp: poll_step_def bind_exn_def split: if_splits)
    next
      case (Some r)
      then show ?thesis using assms d JObj
        by (cases r)
          (auto simp: poll_step_def bind_exn_def spec_output_def
            split: if_splits option.splits sum.splits)
    qed
  qed (use assms d in \<open>simp_all add: poll_step_def\<close>)
qed

lemma poll_loop_cases:
  obtains
    (exhausted) "\<forall>i<n. still_processing (get_job w j i)"
      "poll_loop w j iv n 0 s = (Inl (Exception msg_max_retries), add_events (poll_trace j iv n) s)"
  | (raised) k e where "k < n" "\<forall>i<k. still_processing (get_job w j i)"
      "get_job w j k = Inl e"
      "poll_loop w j iv n 0 s = (Inl e, add_events (poll_trace j iv k @ [VendorGetJob j]) s)"
  | (failed) k resp e where "k < n" "\<forall>i<k. still_processing (get_job w j i)"
      "get_job w j k = Inr resp" "poll_step resp = Raise e"
      "poll_loop w j iv n 0 s = (Inl e, add_events (poll_trace j iv k @ [VendorGetJob j]) s)"
  | (returned) k resp v where "k < n" "\<forall>i<k. still_processing (get_job w j i)"
      "get_job w j k = Inr resp" "poll_step resp = Return v"
      "poll_loop w j iv n 0 s = (Inr v, add_events (poll_trace j iv k @ [VendorGetJob j]) s)"
proof -
  from first_answer [of n "get_job w j"] consider
    "\<forall>i<n. still_processing (get_job w j i)"
    | k where "k < n" "\<not> still_processing (get_job w j k)"
        "\<forall>i<k. still_processing (get_job w j i)"
    by blast
  then show thesis
  proof cases
    case 1
    then show thesis using exhausted poll_loop_exhaust by blast
  next
    case (2 k)
    show thesis
    proof (cases "get_job w j k")
      case (Inl e)
      then show thesis using raised 2 poll_loop_answer(1) by blast
    next
      case (Inr resp)
      show thesis
      proof (cases "poll_step resp")
        case (Return v)
        then show thesis using returned 2 Inr poll_loop_answer(2) by blast
      next
        case Continue
        then have "still_processing (get_job w j k)"
          using Inr by (simp add: still_processing_def poll_step_Continue)
        then show thesis using 2 by simp
      next
        case (Raise e)
        then show thesis using failed 2 Inr poll_loop_answer(3) by blast
      qed
    qed
  qed
qed

lemma vendor_calls_append: "vendor_calls (a @ b) = vendor_calls a + vendor_calls b"
  by (simp add: vendor_calls_def)

lemma vendor_calls_poll_trace: "vendor_calls (poll_trace j iv k) = k"
  by (induction k) (simp_all add: poll_trace_def vendor_calls_def)

lemma events_add_events: "events (add_events es s) = events s @ es"
  by (simp add: add_events_def)

lemma poll_returns_only_on_success:
  assumes "poll_loop w j iv n 0 s = (Inr v, s')"
  shows "\<exists>k<n. \<exists>resp. get_job w j k = Inr resp \<and> status_code resp = 200
           \<and> vendor_code_is resp 100000
           \<and> (\<exists>out. spec_output resp = Some out \<and> subscript_0 out = Inr v)
           \<and> (\<forall>i<k. still_processing (get_job w j i))
           \<and> s' = add_events (poll_trace j iv k @ [VendorGetJob j]) s"
proof (cases rule: poll_loop_cases [of n w j iv s])
  case exhausted
  then show ?thesis using assms by simp
next
  case (raised k e)
  then show ?thesis using assms by simp
next
  case (failed k resp e)
  then show ?thesis using assms by simp
next
  case (returned k resp v')
  then have "v' = v" "s' = add_events (poll_trace j iv k @ [VendorGetJob j]) s"
    using assms by simp_all
  then show ?thesis
    using returned poll_step_Return [of resp v] poll_step_Return_output [of resp v]
    by blast
qed

lemma poll_success:
  assumes "k < n" and "\<forall>i<k. still_processing (get_job w j i)"
    and "get_job w j k = Inr resp" and "status_code resp = 200"
    and "vendor_code_is resp 100000" and "spec_output resp = Some (JList (x # xs))"
  shows "poll_loop w j iv n 0 s = (Inr x, add_events (poll_trace j iv k @ [VendorGetJob j]) s)"
proof -
  have "poll_step resp = Return x"
    using poll_step_success [OF assms(4,5,6)] by simp
  then show ?thesis
    using poll_loop_answer(2) assms(1,2,3) by blast
qed

lemma poll_trace_shape:
  "\<exists>k\<le>n. (\<forall>i<k. still_processing (get_job w j i))
     \<and> (k < n \<and> \<not> still_processing (get_job w j k)
          \<and> snd (poll_loop w j iv n 0 s) = add_events (poll_trace j iv k @ [VendorGetJob j]) s
        \<or> k = n \<and> snd (poll_loop w j iv n 0 s) = add_events (poll_trace j iv n) s)"
proof (cases rule: poll_loop_cases [of n w j iv s])
  case exhausted
  then show ?thesis by auto
next
  case (raised k e)
  then have "\<not> still_processing (get_job w j k)"
    by (simp add: still_processing_def)
  then show ?thesis using raised by (intro exI [of _ k]) simp
next
  case (failed k resp e)
  then have "\<not> still_processing (get_job w j k)"
    by (simp add: still_processing_def poll_step_Continue [symmetric])
  then show ?thesis using failed by (intro exI [of _ k]) simp
next
  case (returned k resp v)
  then have "\<not> still_processing (get_job w j k)"
    by (simp add: still_processing_def poll_step_Continue [symmetric])
  then show ?thesis using returned by (intro exI [of _ k]) simp
qed

lemma poll_fails_immediately:
  assumes "k < n" and "\<forall>i<k. still_processing (get_job w j i)"
    and "get_job w j k = Inr resp"
    and "status_code resp \<noteq> 200
         \<or> (\<not> vendor_code_is resp 100000 \<and> \<not> vendor_code_is resp 300001)"
  shows "\<exists>e. poll_loop w j iv n 0 s
              = (Inl e, add_events (poll_trace j iv k @ [VendorGetJob j]) s)"
    and "status_code resp \<noteq> 200 \<or> (\<exists>kvs. resp_json resp = Some (JObj kvs)) \<Longrightarrow>
         fst (poll_loop w j iv n 0 s) = Inl (Exception msg_fetch_failed)"
proof -
  obtain e where e: "poll_step resp = Raise e"
    using poll_step_Raise_other [OF assms(4)] by blast
  have r: "poll_loop w j iv n 0 s = (Inl e, add_events (poll_trace j iv k @ [VendorGetJob j]) s)"
    using poll_loop_answer(3) assms(1,2,3) e by blast
  then show "\<exists>e. poll_loop w j iv n 0 s
              = (Inl e, add_events (poll_trace j iv k @ [VendorGetJob j]) s)" ..
  assume "status_code resp \<noteq> 200 \<or> (\<exists>kvs. resp_json resp = Some (JObj kvs))"
  then have "poll_step resp = Raise (Exception msg_fetch_failed)"
    using assms(4) poll_step_fetch_failed by blast
  then show "fst (poll_loop w j iv n 0 s) = Inl (Exception msg_fetch_failed)"
    using r e by simp
qed

text \<open>
  C2. With the default ceiling of 30 attempts and interval 2: (1) a value is returned
  only when some attempt \<open>k < 30\<close> was answered with HTTP 200 and vendor code 100000,
  all earlier attempts having been answered 200 and 300001, and the value is the first
  element of that response's \<open>result.output\<close>; (2) such a response whose output is a
  non-empty list does return its first element; (3) every GET but the last was answered
  200 and 300001, so a retry is consumed on 300001 only; (4) any other code and any
  non-200 status ends the call with a failure at once, with no further GET; (5) thirty
  answers of 300001 end in the retry-ceiling failure after exactly 30 GETs.
\<close>

theorem poll_job_protocol:
  fixes w :: world and job :: json and s :: sys_state
  defines "r \<equiv> get_face_swap_result w job default_retries default_interval s"
  shows
    "(fst r = Inr v \<longrightarrow>
        (\<exists>k<30. \<exists>resp. get_job w job k = Inr resp \<and> status_code resp = 200
           \<and> vendor_code_is resp 100000
           \<and> (\<exists>out. spec_output resp = Some out \<and> subscript_0 out = Inr v)
           \<and> (\<forall>i<k. still_processing (get_job w job i))
           \<and> snd r = add_events (poll_trace job 2 k @ [VendorGetJob job]) s))
     \<and> (k < 30 \<and> (\<forall>i<k. still_processing (get_job w job i))
          \<and> get_job w job k = Inr resp \<and> status_code resp = 200
          \<and> vendor_code_is resp 100000 \<and> spec_output resp = Some (JList (x # xs))
        \<longrightarrow> r = (Inr x, add_events (poll_trace job 2 k @ [VendorGetJob job]) s))
     \<and> (\<exists>m\<le>30. (\<forall>i<m. still_processing (get_job w job i))
          \<and> (m < 30 \<and> \<not> still_processing (get_job w job m)
               \<and> snd r = add_events (poll_trace job 2 m @ [VendorGetJob job]) s
             \<or> m = 30 \<and> snd r = add_events (poll_trace job 2 30) s))
     \<and> (k < 30 \<and> (\<forall>i<k. still_processing (get_job w job i))
          \<and> get_job w job k = Inr resp
          \<and> (status_code resp \<noteq> 200
               \<or> (\<not> vendor_code_is resp 100000 \<and> \<not> vendor_code_is resp 300001))
        \<longrightarrow> (\<exists>e. r = (Inl e, add_events (poll_trace job 2 k @ [VendorGetJob job]) s))
            \<and> (status_code resp \<noteq> 200 \<or> (\<exists>kvs. resp_json resp = Some (JObj kvs))
                 \<longrightarrow> fst r = Inl (Exception msg_fetch_failed)))
     \<and> ((\<forall>i<30. still_processing (get_job w job i))
        \<longrightarrow> r = (Inl (Exception msg_max_retries), add_events (poll_trace job 2 30) s)
            \<and> vendor_calls (events (snd r)) = vendor_calls (events s) + 30)"
proof -
  have r: "r = poll_loop w job 2 30 0 s"
    by (simp add: r_def get_face_swap_result_def default_retries_def default_interval_def)
  have p1: "fst r = Inr v \<longrightarrow>
        (\<exists>k<30. \<exists>resp. get_job w job k = Inr resp \<and> status_code resp = 200
           \<and> vendor_code_is resp 100000
           \<and> (\<exists>out. spec_output resp = Some out \<and> subscript_0 out = Inr v)
           \<and> (\<forall>i<k. still_processing (get_job w job i))
           \<and> snd r = add_events (poll_trace job 2 k @ [VendorGetJob job]) s)"
  proof
    assume "fst r = Inr v"
    then have "poll_loop w job 2 30 0 s = (Inr v, snd r)"
      unfolding r by (metis prod.collapse)
    from poll_returns_only_on_success [OF this] show "\<exists>k<30. \<exists>resp. get_job w job k = Inr resp \<and> status_code resp = 200
           \<and> vendor_code_is resp 100000
           \<and> (\<exists>out. spec_output resp = Some out \<and> subscript_0 out = Inr v)
           \<and> (\<forall>i<k. still_processing (get_job w job i))
           \<and> snd r = add_events (poll_trace job 2 k @ [VendorGetJob job]) s" .
  qed
  have p2: "k < 30 \<and> (\<forall>i<k. still_processing (get_job w job i))
          \<and> get_job w job k = Inr resp \<and> status_code resp = 200
          \<and> vendor_code_is resp 100000 \<and> spec_output resp = Some (JList (x # xs))
        \<longrightarrow> r = (Inr x, add_events (poll_trace job 2 k @ [VendorGetJob job]) s)"
    unfolding r using poll_success [of k 30 w job resp x xs 2 s] by blast
  have p3: "\<exists>m\<le>30. (\<forall>i<m. still_processing (get_job w job i))
          \<and> (m < 30 \<and> \<not> still_processing (get_job w job m)
               \<and> snd r = add_events (poll_trace job 2 m @ [VendorGetJob job]) s
             \<or> m = 30 \<and> snd r = add_events (poll_trace job 2 30) s)"
    unfolding r by (rule poll_trace_shape)
  have p4: "k < 30 \<and> (\<forall>i<k. still_processing (get_job w job i))
          \<and> get_job w job k = Inr resp
          \<and> (status_code resp \<noteq> 200
               \<or> (\<not> vendor_code_is resp 100000 \<and> \<not> vendor_code_is resp 300001))
        \<longrightarrow> (\<exists>e. r = (Inl e, add_events (poll_trace job 2 k @ [VendorGetJob job]) s))
            \<and> (status_code resp \<noteq> 200 \<or> (\<exists>kvs. resp_json resp = Some (JObj kvs))
                 \<longrightarrow> fst r = Inl (Exception msg_fetch_failed))"
    unfolding r using poll_fails_immediately [of k 30 w job resp 2 s] by blast
  have p5: "(\<forall>i<30. still_processing (get_job w job i))
        \<longrightarrow> r = (Inl (Exception msg_max_retries), add_events (poll_trace job 2 30) s)
            \<and> vendor_calls (events (snd r)) = vendor_calls (events s) + 30"
    unfolding r using poll_loop_exhaust [of 30 w job 2 s]
    by (simp add: events_add_events vendor_calls_append vendor_calls_poll_trace)
  from p1 p2 p3 p4 p5 show ?thesis by blast
qed

lemma get_job_example [simp]: "get_job (example_world c p cosr) j = p"
  by (simp add: example_world_def)

lemma still_processing_pending: "still_processing (Inr pending_resp)"
  by (simp add: still_processing_def pending_resp_def vendor_resp_def vendor_code_is_def)

lemma done_resp_facts:
  "status_code done_resp = 200" "vendor_code_is done_resp 100000"
  "spec_output done_resp = Some (JList [JStr ''https://vendor/out.jpg''])"
  by (simp_all add: done_resp_def vendor_resp_def vendor_code_is_def spec_output_def)

lemma refused_resp_facts:
  "status_code refused_resp = 200" "\<not> vendor_code_is refused_resp 100000"
  "\<not> vendor_code_is refused_resp 300001"
  "resp_json refused_resp = Some (JObj [(''code'', JInt 400001)])"
  by (simp_all add: refused_resp_def vendor_resp_def vendor_code_is_def)

theorem poll_job_protocol_witness:
  "get_face_swap_result (example_world created_resp two_pending_then_done Map.empty) (JStr ''J1'')
       default_retries default_interval initial_state
     = (Inr (JStr ''https://vendor/out.jpg''),
        add_events [VendorGetJob (JStr ''J1''), Sleep 2, VendorGetJob (JStr ''J1''), Sleep 2,
                    VendorGetJob (JStr ''J1'')] initial_state)
   \<and> get_face_swap_result (example_world created_resp (\<lambda>k. Inr pending_resp) Map.empty)
          (JStr ''J1'') default_retries default_interval initial_state
     = (Inl (Exception msg_max_retries), add_events (poll_trace (JStr ''J1'') 2 30) initial_state)
   \<and> vendor_calls (events (snd (get_face_swap_result
          (example_world created_resp (\<lambda>k. Inr pending_resp) Map.empty)
          (JStr ''J1'') default_retries default_interval initial_state))) = 30
   \<and> get_face_swap_result (example_world created_resp (\<lambda>k. Inr refused_resp) Map.empty)
          (JStr ''J1'') default_retries default_interval initial_state
     = (Inl (Exception msg_fetch_failed), add_events [VendorGetJob (JStr ''J1'')] initial_state)
   \<and> (\<exists>k<30. \<exists>resp.
          get_job (example_world created_resp two_pending_then_done Map.empty) (JStr ''J1'') k
            = Inr resp
          \<and> status_code resp = 200 \<and> vendor_code_is resp 100000
          \<and> (\<exists>out. spec_output resp = Some out
                \<and> subscript_0 out = Inr (JStr ''https://vendor/out.jpg'')))"
proof -
  let ?w1 = "example_world created_resp two_pending_then_done Map.empty"
  let ?w2 = "example_world created_resp (\<lambda>k. Inr pending_resp) Map.empty"
  let ?w3 = "example_world created_resp (\<lambda>k. Inr refused_resp) Map.empty"
  have a: "(2::nat) < 30 \<and> (\<forall>i<2. still_processing (get_job ?w1 (JStr ''J1'') i))
      \<and> get_job ?w1 (JStr ''J1'') 2 = Inr done_resp \<and> status_code done_resp = 200
      \<and> vendor_code_is done_resp 100000
      \<and> spec_output done_resp = Some (JList (JStr ''https://vendor/out.jpg'' # []))"
    by (simp add: two_pending_then_done_def still_processing_pending done_resp_facts)
  have b: "\<forall>i<30. still_processing (get_job ?w2 (JStr ''J1'') i)"
    by (simp add: still_processing_pending)
  have c: "(0::nat) < 30 \<and> (\<forall>i<0. still_processing (get_job ?w3 (JStr ''J1'') i))
      \<and> get_job ?w3 (JStr ''J1'') 0 = Inr refused_resp
      \<and> (status_code refused_resp \<noteq> 200
           \<or> (\<not> vendor_code_is refused_resp 100000 \<and> \<not> vendor_code_is refused_resp 300001))"
    by (simp add: refused_resp_facts)
  have t: "poll_trace (JStr ''J1'') 2 2 = [VendorGetJob (JStr ''J1''), Sleep 2, VendorGetJob (JStr ''J1''), Sleep 2]"
    "poll_trace (JStr ''J1'') 2 0 = []"
    by (simp_all add: poll_trace_def numeral_2_eq_2)
  have s0: "vendor_calls (events initial_state) = 0"
    by (simp add: initial_state_def vendor_calls_def)
  have r1: "get_face_swap_result ?w1 (JStr ''J1'') default_retries default_interval initial_state
     = (Inr (JStr ''https://vendor/out.jpg''),
        add_events (poll_trace (JStr ''J1'') 2 2 @ [VendorGetJob (JStr ''J1'')]) initial_state)"
    using a poll_job_protocol [where w = ?w1 and job = "JStr ''J1''" and s = initial_state
        and k = 2 and resp = done_resp and x = "JStr ''https://vendor/out.jpg''" and xs = "[]"]
    by blast
  have r2: "get_face_swap_result ?w2 (JStr ''J1'') default_retries default_interval initial_state
     = (Inl (Exception msg_max_retries), add_events (poll_trace (JStr ''J1'') 2 30) initial_state)
     \<and> vendor_calls (events (snd (get_face_swap_result ?w2 (JStr ''J1'') default_retries
          default_interval initial_state))) = vendor_calls (events initial_state) + 30"
    using b poll_job_protocol [where w = ?w2 and job = "JStr ''J1''" and s = initial_state]
    by blast
  have r3: "(\<exists>e. get_face_swap_result ?w3 (JStr ''J1'') default_retries default_interval
                 initial_state
               = (Inl e, add_events (poll_trace (JStr ''J1'') 2 0 @ [VendorGetJob (JStr ''J1'')])
                    initial_state))
     \<and> fst (get_face_swap_result ?w3 (JStr ''J1'') default_retries default_interval
              initial_state) = Inl (Exception msg_fetch_failed)"
    using c refused_resp_facts(4)
      poll_job_protocol [where w = ?w3 and job = "JStr ''J1''" and s = initial_state and k = 0
        and resp = refused_resp]
    by blast
  have "fst (get_face_swap_result ?w1 (JStr ''J1'') default_retries default_interval
              initial_state) = Inr (JStr ''https://vendor/out.jpg'')"
    using r1 by simp
  then obtain k resp out where
    "k < 30" "get_job ?w1 (JStr ''J1'') k = Inr resp" "status_code resp = 200"
    "vendor_code_is resp 100000" "spec_output resp = Some out"
    "subscript_0 out = Inr (JStr ''https://vendor/out.jpg'')"
    using mp [OF conjunct1 [OF poll_job_protocol [where w = ?w1 and job = "JStr ''J1''"
          and s = initial_state and v = "JStr ''https://vendor/out.jpg''"]]]
    by auto
  then have r4: "\<exists>k<30. \<exists>resp. get_job ?w1 (JStr ''J1'') k = Inr resp
          \<and> status_code resp = 200 \<and> vendor_code_is resp 100000
          \<and> (\<exists>out. spec_output resp = Some out
                \<and> subscript_0 out = Inr (JStr ''https://vendor/out.jpg''))"
    by blast
  have r3': "get_face_swap_result ?w3 (JStr ''J1'') default_retries default_interval
                 initial_state
               = (Inl (Exception msg_fetch_failed),
                  add_events [VendorGetJob (JStr ''J1'')] initial_state)"
    using r3 t(2) by auto
  have r2': "vendor_calls (events (snd (get_face_swap_result ?w2 (JStr ''J1'') default_retries
          default_interval initial_state))) = 30"
    using conjunct2 [OF r2] by (simp only: s0 add_0)
  from r1 conjunct1 [OF r2] r2' r3' r4 show ?thesis
    unfolding t(1) by simp
qed

lemma poll_step_unguarded:
  assumes "status_code resp = 200" and "resp_json resp = Some (JObj kvs)"
    and "vendor_code_is resp 100000"
  shows "map_of kvs ''result'' = None \<Longrightarrow> poll_step resp = Raise KeyError"
    and "map_of kvs ''result'' = Some (JObj rs) \<Longrightarrow> map_of rs ''output'' = None \<Longrightarrow>
         poll_step resp = Raise KeyError"
    and "map_of kvs ''result'' = Some (JObj rs) \<Longrightarrow> map_of rs ''output'' = Some (JList []) \<Longrightarrow>
         poll_step resp = Raise IndexError"
  using assms
  by (auto simp: poll_step_def vendor_code_is_def bind_exn_def split: option.splits)

text \<open>
  C9. The success branch indexes \<open>data["result"]["output"][0]\<close> without a guard. When
  attempt \<open>k\<close> is answered with HTTP 200 and vendor code 100000 but the body has no
  \<open>result\<close>, or its \<open>result\<close> has no \<open>output\<close>, the call ends in \<open>KeyError\<close>; when
  the output list is empty it ends in \<open>IndexError\<close>. In each case nothing is returned,
  and the failure is neither the result-fetch failure nor the retry-ceiling failure.
\<close>

theorem poll_unguarded_lookup:
  fixes w :: world and job :: json and s :: sys_state
  defines "r \<equiv> get_face_swap_result w job default_retries default_interval s"
  assumes "k < 30" and "\<forall>i<k. still_processing (get_job w job i)"
    and "get_job w job k = Inr resp"
    and "status_code resp = 200" and "resp_json resp = Some (JObj kvs)"
    and "vendor_code_is resp 100000"
  shows "(map_of kvs ''result'' = None
            \<longrightarrow> r = (Inl KeyError, add_events (poll_trace job 2 k @ [VendorGetJob job]) s))
       \<and> (map_of kvs ''result'' = Some (JObj rs) \<and> map_of rs ''output'' = None
            \<longrightarrow> r = (Inl KeyError, add_events (poll_trace job 2 k @ [VendorGetJob job]) s))
       \<and> (map_of kvs ''result'' = Some (JObj rs) \<and> map_of rs ''output'' = Some (JList [])
            \<longrightarrow> r = (Inl IndexError, add_events (poll_trace job 2 k @ [VendorGetJob job]) s))
       \<and> (map_of kvs ''result'' = None
            \<or> (map_of kvs ''result'' = Some (JObj rs)
                \<and> (map_of rs ''output'' = None \<or> map_of rs ''output'' = Some (JList [])))
            \<longrightarrow> (\<forall>v. fst r \<noteq> Inr v) \<and> fst r \<noteq> Inl (Exception msg_fetch_failed)
                \<and> fst r \<noteq> Inl (Exception msg_max_retries))"
proof -
  have r: "r = poll_loop w job 2 30 0 s"
    by (simp add: r_def get_face_swap_result_def default_retries_def default_interval_def)
  have raise: "poll_step resp = Raise e \<Longrightarrow>
      r = (Inl e, add_events (poll_trace job 2 k @ [VendorGetJob job]) s)" for e
    unfolding r using poll_loop_answer(3) [OF assms(3,2,4)] by blast
  have p1: "map_of kvs ''result'' = None
            \<longrightarrow> r = (Inl KeyError, add_events (poll_trace job 2 k @ [VendorGetJob job]) s)"
    using raise poll_step_unguarded(1) [OF assms(5,6,7)] by blast
  have p2: "map_of kvs ''result'' = Some (JObj rs) \<and> map_of rs ''output'' = None
            \<longrightarrow> r = (Inl KeyError, add_events (poll_trace job 2 k @ [VendorGetJob job]) s)"
    using raise poll_step_unguarded(2) [OF assms(5,6,7)] by blast
  have p3: "map_of kvs ''result'' = Some (JObj rs) \<and> map_of rs ''output'' = Some (JList [])
            \<longrightarrow> r = (Inl IndexError, add_events (poll_trace job 2 k @ [VendorGetJob job]) s)"
    using raise poll_step_unguarded(3) [OF assms(5,6,7)] by blast
  have p4: "map_of kvs ''result'' = None
            \<or> (map_of kvs ''result'' = Some (JObj rs)
                \<and> (map_of rs ''output'' = None \<or> map_of rs ''output'' = Some (JList [])))
            \<longrightarrow> (\<forall>v. fst r \<noteq> Inr v) \<and> fst r \<noteq> Inl (Exception msg_fetch_failed)
                \<and> fst r \<noteq> Inl (Exception msg_max_retries)"
    using p1 p2 p3 by auto
  from p1 p2 p3 p4 show ?thesis by blast
qed

lemma unguarded_resp_facts:
  "status_code empty_output_resp = 200" "vendor_code_is empty_output_resp 100000"
  "resp_json empty_output_resp
     = Some (JObj [(''code'', JInt 100000), (''result'', JObj [(''output'', JList [])])])"
  "status_code no_result_resp = 200" "vendor_code_is no_result_resp 100000"
  "resp_json no_result_resp = Some (JObj [(''code'', JInt 100000)])"
  "status_code no_output_resp = 200" "vendor_code_is no_output_resp 100000"
  "resp_json no_output_resp = Some (JObj [(''code'', JInt 100000), (''result'', JObj [])])"
  by (simp_all add: empty_output_resp_def no_result_resp_def no_output_resp_def
      vendor_resp_def vendor_code_is_def)

theorem poll_unguarded_lookup_witness:
  "get_face_swap_result (example_world created_resp (\<lambda>k. Inr empty_output_resp) Map.empty)
       (JStr ''J1'') default_retries default_interval initial_state
     = (Inl IndexError, add_events [VendorGetJob (JStr ''J1'')] initial_state)
   \<and> get_face_swap_result (example_world created_resp (\<lambda>k. Inr no_result_resp) Map.empty)
       (JStr ''J1'') default_retries default_interval initial_state
     = (Inl KeyError, add_events [VendorGetJob (JStr ''J1'')] initial_state)
   \<and> get_face_swap_result (example_world created_resp (\<lambda>k. Inr no_output_resp) Map.empty)
       (JStr ''J1'') default_retries default_interval initial_state
     = (Inl KeyError, add_events [VendorGetJob (JStr ''J1'')] initial_state)
   \<and> fst (get_face_swap_result (example_world created_resp (\<lambda>k. Inr empty_output_resp) Map.empty)
       (JStr ''J1'') default_retries default_interval initial_state)
     \<noteq> Inl (Exception msg_fetch_failed)
   \<and> fst (get_face_swap_result (example_world created_resp (\<lambda>k. Inr empty_output_resp) Map.empty)
       (JStr ''J1'') default_retries default_interval initial_state)
     \<noteq> Inl (Exception msg_max_retries)"
proof -
  let ?w1 = "example_world created_resp (\<lambda>k. Inr empty_output_resp) Map.empty"
  let ?w2 = "example_world created_resp (\<lambda>k. Inr no_result_resp) Map.empty"
  let ?w3 = "example_world created_resp (\<lambda>k. Inr no_output_resp) Map.empty"
  have k: "(0::nat) < 30" by simp
  have t: "poll_trace (JStr ''J1'') 2 0 = []" by (simp add: poll_trace_def)
  have p1: "\<forall>i<0. still_processing (get_job ?w1 (JStr ''J1'') i)"
    and p2: "\<forall>i<0. still_processing (get_job ?w2 (JStr ''J1'') i)"
    and p3: "\<forall>i<0. still_processing (get_job ?w3 (JStr ''J1'') i)"
    by simp_all
  have g1: "get_job ?w1 (JStr ''J1'') 0 = Inr empty_output_resp"
    and g2: "get_job ?w2 (JStr ''J1'') 0 = Inr no_result_resp"
    and g3: "get_job ?w3 (JStr ''J1'') 0 = Inr no_output_resp"
    by simp_all
  have r1: "get_face_swap_result ?w1 (JStr ''J1'') default_retries default_interval initial_state
     = (Inl IndexError, add_events (poll_trace (JStr ''J1'') 2 0 @ [VendorGetJob (JStr ''J1'')])
          initial_state)"
    using poll_unguarded_lookup [OF k p1 g1 unguarded_resp_facts(1,3,2),
        where rs = "[(''output'', JList [])]"]
    by simp
  have r2: "get_face_swap_result ?w2 (JStr ''J1'') default_retries default_interval initial_state
     = (Inl KeyError, add_events (poll_trace (JStr ''J1'') 2 0 @ [VendorGetJob (JStr ''J1'')])
          initial_state)"
    using poll_unguarded_lookup [OF k p2 g2 unguarded_resp_facts(4,6,5)]
    by simp
  have r3: "get_face_swap_result ?w3 (JStr ''J1'') default_retries default_interval initial_state
     = (Inl KeyError, add_events (poll_trace (JStr ''J1'') 2 0 @ [VendorGetJob (JStr ''J1'')])
          initial_state)"
    using poll_unguarded_lookup [OF k p3 g3 unguarded_resp_facts(7,9,8), where rs = "[]"]
    by simp
  have r4: "fst (get_face_swap_result ?w1 (JStr ''J1'') default_retries default_interval
                  initial_state) \<noteq> Inl (Exception msg_fetch_failed)
      \<and> fst (get_face_swap_result ?w1 (JStr ''J1'') default_retries default_interval
                  initial_state) \<noteq> Inl (Exception msg_max_retries)"
    using poll_unguarded_lookup [OF k p1 g1 unguarded_resp_facts(1,3,2),
        where rs = "[(''output'', JList [])]" and s = initial_state]
    by simp
  show ?thesis using r1 r2 r3 r4 t by simp
qed

section \<open>Properties of job creation\<close>

lemma post_create_job_example [simp]: "post_create_job (example_world c p cr) fs = Inr c"
  by (simp add: example_world_def)

lemma cos_upload_file_example [simp]: "cos_upload_file (example_world c p cr) call = Inr cr"
  by (simp add: example_world_def)

lemma create_job_result_ok:
  assumes "status_code resp = 200" and "resp_json resp = Some (JObj kvs)"
    and "vendor_code_is resp 100000"
  shows "create_job_result resp
         = bind_exn (subscript_key (JObj kvs) ''result'') (\<lambda>r. subscript_key r ''job_id'')"
  using assms
  by (auto simp: create_job_result_def vendor_code_is_def bind_exn_def split: option.splits)

lemma create_job_result_upstream:
  assumes "status_code resp \<noteq> 200
           \<or> (resp_json resp = Some (JObj kvs) \<and> \<not> vendor_code_is resp 100000)"
  shows "create_job_result resp = Inl (Exception (msg_create_failed @ resp_text resp))"
  using assms
  by (auto simp: create_job_result_def vendor_code_is_def bind_exn_def split: option.splits)

lemma create_job_result_Inr:
  assumes "create_job_result resp = Inr j"
  shows "status_code resp = 200 \<and> vendor_code_is resp 100000
         \<and> (\<exists>kvs rs. resp_json resp = Some (JObj kvs)
               \<and> map_of kvs ''result'' = Some (JObj rs) \<and> map_of rs ''job_id'' = Some j)"
proof -
  from assms obtain data where d: "status_code resp = 200" "resp_json resp = Some data"
    by (auto simp: create_job_result_def split: if_splits option.splits)
  show ?thesis
  proof (cases data)
    case (JObj kvs)
    show ?thesis
    proof (cases "map_of kvs ''result''")
      case None
      then show ?thesis using assms d JObj
        by (auto simp: create_job_result_def bind_exn_def split: if_splits)
    next
      case (Some r)
      then show ?thesis using assms d JObj
        by (cases r)
          (auto simp: create_job_result_def bind_exn_def vendor_code_is_def
            split: if_splits option.splits)
    qed
  qed (use assms d in \<open>simp_all add: create_job_result_def bind_exn_def\<close>)
qed

lemma create_face_swap_job_fst:
  "post_create_job w (job_files src tgt) = Inr resp \<Longrightarrow>
   fst (create_face_swap_job w src tgt s) = create_job_result resp"
  by (simp add: create_face_swap_job_def Let_def)

lemma create_face_swap_job_snd:
  "snd (create_face_swap_job w src tgt s) = add_events [VendorCreateJob (job_files src tgt)] s"
  by (simp add: create_face_swap_job_def Let_def add_events_log split: sum.splits)

text \<open>
  C5, as the specification states it, makes HTTP 200 with vendor code 100000 sufficient
  for a job id, and promises the upstream error with the raw body for every other
  response. A 200 response with code 100000 and no \<open>result\<close> ends in \<open>KeyError\<close>, and
  a 200 response whose body is not JSON ends in the decoder's error.
\<close>

theorem create_job_counterexample:
  "status_code no_result_resp = 200 \<and> vendor_code_is no_result_resp 100000
   \<and> fst (create_face_swap_job (example_world no_result_resp (\<lambda>k. Inr pending_resp) Map.empty)
            sig_jpeg sig_png initial_state) = Inl KeyError
   \<and> status_code html_resp = 200 \<and> \<not> vendor_code_is html_resp 100000
   \<and> fst (create_face_swap_job (example_world html_resp (\<lambda>k. Inr pending_resp) Map.empty)
            sig_jpeg sig_png initial_state) = Inl JSONDecodeError
   \<and> Inl JSONDecodeError
       \<noteq> (Inl (Exception (msg_create_failed @ resp_text html_resp)) :: exn + json)"
  by (simp add: create_face_swap_job_fst create_job_result_def no_result_resp_def html_resp_def
      vendor_resp_def vendor_code_is_def bind_exn_def)

text \<open>
  C5, amended. Given the response to the create-job POST: with HTTP 200, vendor code
  100000 and a \<open>result\<close> object holding \<open>job_id\<close>, that job id is returned; with a
  status other than 200, or a JSON object body whose code is not 100000, the call fails
  with the upstream error whose message ends in the raw response body; and a job id is
  returned only for HTTP 200 with vendor code 100000 and \<open>result.job_id\<close> present.
\<close>

theorem create_job_outcome:
  fixes w :: world and s :: sys_state and src tgt :: bytes
  defines "r \<equiv> fst (create_face_swap_job w src tgt s)"
  assumes "post_create_job w (job_files src tgt) = Inr resp"
  shows "(status_code resp = 200 \<and> vendor_code_is resp 100000
            \<and> resp_json resp = Some (JObj kvs) \<and> map_of kvs ''result'' = Some (JObj rs)
            \<and> map_of rs ''job_id'' = Some j
          \<longrightarrow> r = Inr j)
       \<and> (status_code resp \<noteq> 200
            \<or> (resp_json resp = Some (JObj kvs) \<and> \<not> vendor_code_is resp 100000)
          \<longrightarrow> r = Inl (Exception (msg_create_failed @ resp_text resp)))
       \<and> (r = Inr j
          \<longrightarrow> status_code resp = 200 \<and> vendor_code_is resp 100000
              \<and> (\<exists>kvs rs. resp_json resp = Some (JObj kvs)
                    \<and> map_of kvs ''result'' = Some (JObj rs) \<and> map_of rs ''job_id'' = Some j))"
proof -
  have r: "r = create_job_result resp"
    unfolding r_def using assms(2) by (rule create_face_swap_job_fst)
  have p1: "status_code resp = 200 \<and> vendor_code_is resp 100000
            \<and> resp_json resp = Some (JObj kvs) \<and> map_of kvs ''result'' = Some (JObj rs)
            \<and> map_of rs ''job_id'' = Some j
          \<longrightarrow> r = Inr j"
    unfolding r using create_job_result_ok [of resp kvs] by (auto simp: bind_exn_def)
  have p2: "status_code resp \<noteq> 200
            \<or> (resp_json resp = Some (JObj kvs) \<and> \<not> vendor_code_is resp 100000)
          \<longrightarrow> r = Inl (Exception (msg_create_failed @ resp_text resp))"
    unfolding r using create_job_result_upstream [of resp kvs] by blast
  have p3: "r = Inr j
          \<longrightarrow> status_code resp = 200 \<and> vendor_code_is resp 100000
              \<and> (\<exists>kvs rs. resp_json resp = Some (JObj kvs)
                    \<and> map_of kvs ''result'' = Some (JObj rs) \<and> map_of rs ''job_id'' = Some j)"
    unfolding r using create_job_result_Inr [of resp j] by blast
  from p1 p2 p3 show ?thesis by blast
qed

theorem create_job_outcome_witness:
  "fst (create_face_swap_job (example_world created_resp (\<lambda>k. Inr pending_resp) Map.empty)
          sig_jpeg sig_png initial_state) = Inr (JStr ''J1'')
   \<and> fst (create_face_swap_job (example_world refused_resp (\<lambda>k. Inr pending_resp) Map.empty)
          sig_jpeg sig_png initial_state)
     = Inl (Exception (msg_create_failed @ ''refused''))
   \<and> status_code created_resp = 200 \<and> vendor_code_is created_resp 100000"
proof -
  let ?w1 = "example_world created_resp (\<lambda>k. Inr pending_resp) Map.empty"
  let ?w2 = "example_world refused_resp (\<lambda>k. Inr pending_resp) Map.empty"
  have g1: "post_create_job ?w1 (job_files sig_jpeg sig_png) = Inr created_resp"
    and g2: "post_create_job ?w2 (job_files sig_jpeg sig_png) = Inr refused_resp"
    by simp_all
  have a: "status_code created_resp = 200 \<and> vendor_code_is created_resp 100000
      \<and> resp_json created_resp
          = Some (JObj [(''code'', JInt 100000), (''result'', JObj [(''job_id'', JStr ''J1'')])])
      \<and> map_of [(''code'', JInt 100000), (''result'', JObj [(''job_id'', JStr ''J1'')])]
            ''result'' = Some (JObj [(''job_id'', JStr ''J1'')])
      \<and> map_of [(''job_id'', JStr ''J1'')] ''job_id'' = Some (JStr ''J1'')"
    by (simp add: created_resp_def vendor_resp_def vendor_code_is_def)
  have b: "resp_json refused_resp = Some (JObj [(''code'', JInt 400001)])
      \<and> \<not> vendor_code_is refused_resp 100000 \<and> resp_text refused_resp = ''refused''"
    by (simp add: refused_resp_def vendor_resp_def vendor_code_is_def)
  have r1: "fst (create_face_swap_job ?w1 sig_jpeg sig_png initial_state) = Inr (JStr ''J1'')"
    using a create_job_outcome [OF g1, where s = initial_state and j = "JStr ''J1''"
        and kvs = "[(''code'', JInt 100000), (''result'', JObj [(''job_id'', JStr ''J1'')])]"
        and rs = "[(''job_id'', JStr ''J1'')]"]
    by blast
  have r2: "fst (create_face_swap_job ?w2 sig_jpeg sig_png initial_state)
     = Inl (Exception (msg_create_failed @ resp_text refused_resp))"
    using b create_job_outcome [OF g2, where s = initial_state
        and kvs = "[(''code'', JInt 400001)]"]
    by blast
  show ?thesis using r1 r2 a b by simp
qed

text \<open>
  C6. The one effect of \<open>create_face_swap_job\<close> is a multipart POST that carries the
  source image under the field \<open>target_image\<close> and the target image under the field
  \<open>swap_image\<close>, each with the MIME type the sniffer resolves for it.
\<close>

theorem create_job_multipart_fields:
  "snd (create_face_swap_job w source_image target_image s)
   = add_events
       [VendorCreateJob
          [(''target_image'', ''target.jpg'', source_image, get_mime_type source_image),
           (''swap_image'', ''source.jpg'', target_image, get_mime_type target_image)]] s"
  by (simp add: create_face_swap_job_snd job_files_def)

section \<open>Properties of the Storage Publisher\<close>

text \<open>
  C7. Given the provider's response to the upload of key \<open>k\<close> to bucket \<open>b\<close> in region
  \<open>r\<close>: the URL \<open>https://b.cos.r.myqcloud.com/k\<close> is returned exactly when the response
  has an \<open>ETag\<close> entry, and without one the call fails with the upload failure.
\<close>

theorem upload_to_cos_etag:
  assumes "cos_upload_file w
             \<lparr>cos_region = Some r, cos_secret_id = sid, cos_secret_key = skey,
              cos_bucket = Some b, cos_local_path = os_path_join base k, cos_key = k\<rparr>
           = Inr resp"
  shows "fst (upload_to_cos w (Some r) sid skey (Some b) k base s)
         = (if ''ETag'' \<in> dom resp
            then Inr (''https://'' @ b @ ''.cos.'' @ r @ ''.myqcloud.com/'' @ k)
            else Inl (Exception msg_upload_failed))"
  using assms by (auto simp: upload_to_cos_def Let_def)

theorem upload_to_cos_etag_witness:
  "fst (upload_to_cos (example_world created_resp (\<lambda>k. Inr done_resp) etag_resp)
          (Some ''ap-guangzhou'') (Some ''id'') (Some ''key'') (Some ''faces-1250000000'')
          ''faceswap_20240101120000_1234.jpg'' ''./output'' initial_state)
     = Inr ''https://faces-1250000000.cos.ap-guangzhou.myqcloud.com/faceswap_20240101120000_1234.jpg''
   \<and> fst (upload_to_cos (example_world created_resp (\<lambda>k. Inr done_resp) Map.empty)
          (Some ''ap-guangzhou'') (Some ''id'') (Some ''key'') (Some ''faces-1250000000'')
          ''faceswap_20240101120000_1234.jpg'' ''./output'' initial_state)
     = Inl (Exception msg_upload_failed)"
proof -
  let ?w1 = "example_world created_resp (\<lambda>k. Inr done_resp) etag_resp"
  let ?w2 = "example_world created_resp (\<lambda>k. Inr done_resp) Map.empty"
  let ?call = "\<lparr>cos_region = Some ''ap-guangzhou'', cos_secret_id = Some ''id'',
      cos_secret_key = Some ''key'', cos_bucket = Some ''faces-1250000000'',
      cos_local_path = os_path_join ''./output'' ''faceswap_20240101120000_1234.jpg'',
      cos_key = ''faceswap_20240101120000_1234.jpg''\<rparr>"
  have g1: "cos_upload_file ?w1 ?call = Inr etag_resp"
    and g2: "cos_upload_file ?w2 ?call = Inr Map.empty"
    by simp_all
  have e: "''ETag'' \<in> dom etag_resp" "''ETag'' \<notin> dom (Map.empty :: string \<rightharpoonup> string)"
    by (simp_all add: etag_resp_def)
  show ?thesis
    using e upload_to_cos_etag [OF g1, where s = initial_state]
      upload_to_cos_etag [OF g2, where s = initial_state]
    by simp
qed

section \<open>Properties of the endpoint\<close>

lemma is_Exception_all: "is_Exception e"
  by (cases e) simp_all

lemma files_add_events [simp]: "files (add_events es s) = files s"
  by (simp add: add_events_def)

lemma dirs_add_events [simp]: "dirs (add_events es s) = dirs s"
  by (simp add: add_events_def)

lemma poll_loop_no_remove:
  "\<exists>es. snd (poll_loop w j iv n k s) = add_events es s \<and> (\<forall>p. RemoveFile p \<notin> set es)"
proof (induction n arbitrary: k s)
  case 0
  have "snd (poll_loop w j iv 0 k s) = add_events [] s"
    by (simp add: add_events_def)
  then show ?case by (intro exI [of _ "[]"]) simp
next
  case (Suc n)
  show ?case
  proof (cases "get_job w j k")
    case (Inl e)
    then have "snd (poll_loop w j iv (Suc n) k s) = add_events [VendorGetJob j] s"
      by (simp add: add_events_log)
    then show ?thesis by (intro exI [of _ "[VendorGetJob j]"]) simp
  next
    case (Inr resp)
    show ?thesis
    proof (cases "poll_step resp")
      case (Return v)
      then have "snd (poll_loop w j iv (Suc n) k s) = add_events [VendorGetJob j] s"
        using Inr by (simp add: add_events_log)
      then show ?thesis by (intro exI [of _ "[VendorGetJob j]"]) simp
    next
      case (Raise e)
      then have "snd (poll_loop w j iv (Suc n) k s) = add_events [VendorGetJob j] s"
        using Inr by (simp add: add_events_log)
      then show ?thesis by (intro exI [of _ "[VendorGetJob j]"]) simp
    next
      case Continue
      obtain es where es:
        "snd (poll_loop w j iv n (Suc k) (add_events [VendorGetJob j, Sleep iv] s))
           = add_events es (add_events [VendorGetJob j, Sleep iv] s)"
        "\<forall>p. RemoveFile p \<notin> set es"
        using Suc.IH by blast
      have "snd (poll_loop w j iv (Suc n) k s) = add_events ([VendorGetJob j, Sleep iv] @ es) s"
        using Inr Continue es(1) by (simp add: add_events_log add_events_add)
      then show ?thesis
        using es(2) by (intro exI [of _ "[VendorGetJob j, Sleep iv] @ es"]) simp
    qed
  qed
qed

lemma download_image_Inr:
  assumes "download_image w url out s = (Inr (fname, path), s')"
  shows "files s' path \<noteq> None"
    and "\<exists>es. events s' = events s @ es \<and> (\<forall>p. RemoveFile p \<notin> set es)"
proof -
  obtain r where r: "get_url w url = Inr r" "\<not> (400 \<le> status_code r \<and> status_code r < 600)"
    using assms by (auto simp: download_image_def Let_def split: sum.splits if_splits)
  define s1 where "s1 = log_event (DownloadGet url) s"
  define s2 where "s2 = (if \<not> path_exists s1 out then makedirs out s1 else s1)"
  have p: "path = os_path_join out (generate_filename w ''jpg'')"
    and s': "s' = write_file path (content r) s2"
    using assms r by (auto simp: download_image_def Let_def s1_def s2_def)
  show "files s' path \<noteq> None"
    by (simp add: s' write_file_def log_event_def)
  have "events s2 = events s @ [DownloadGet url]
        \<or> events s2 = events s @ [DownloadGet url, MakeDirs out]"
    by (simp add: s2_def s1_def makedirs_def log_event_def)
  then have "events s' = events s @ [DownloadGet url, WriteFile path]
        \<or> events s' = events s @ [DownloadGet url, MakeDirs out, WriteFile path]"
    by (auto simp: s' write_file_def log_event_def)
  then show "\<exists>es. events s' = events s @ es \<and> (\<forall>p. RemoveFile p \<notin> set es)"
    by (elim disjE)
      ((rule exI [of _ "[DownloadGet url, WriteFile path]"], simp),
       (rule exI [of _ "[DownloadGet url, MakeDirs out, WriteFile path]"], simp))
qed

lemma upload_to_cos_snd:
  "snd (upload_to_cos w rgn sid skey bkt fname base s)
   = add_events
       [CosUpload \<lparr>cos_region = rgn, cos_secret_id = sid, cos_secret_key = skey,
                   cos_bucket = bkt, cos_local_path = os_path_join base fname,
                   cos_key = fname\<rparr>] s"
  by (simp add: upload_to_cos_def Let_def add_events_log split: sum.splits)

lemma os_remove_present:
  assumes "files s p \<noteq> None"
  shows "os_remove p s = (Inr (), add_events [RemoveFile p] (s\<lparr>files := (files s)(p := None)\<rparr>))"
  using assms by (simp add: os_remove_def add_events_log)

text \<open>
  C8. For a request that passed authentication and validation, whose job was created
  and polled to a result and whose download wrote the artifact at \<open>path\<close>: the file
  exists after the download; when the upload succeeds the endpoint answers with success,
  the last two effects are the upload and then the removal of \<open>path\<close>, and the file is
  gone; when the upload fails the endpoint answers 500, no file has been removed during
  the request and the artifact is still there.
\<close>

theorem artifact_removed_only_on_success:
  assumes auth: "verify_auth_token (valid_tokens cfg) (authorization req) = Inr tok"
    and valid: "validate_image (source_data req)" "validate_image (target_data req)"
    and create: "create_face_swap_job w (source_data req) (target_data req) s = (Inr job, s1)"
    and poll: "get_face_swap_result w job default_retries default_interval s1 = (Inr url, s2)"
    and dl: "download_image w url (image_output_path cfg) s2 = (Inr (fname, path), s3)"
    and up: "upload_to_cos w (region cfg) (secret_id cfg) (secret_key cfg) (bucket cfg) fname
               (image_output_path cfg) s3 = (uploaded, s4)"
  shows "files s3 path \<noteq> None
     \<and> (\<forall>cos_url. uploaded = Inr cos_url \<longrightarrow>
          (\<exists>s5 call. endpoint cfg w req s = (Success cos_url url, s5)
             \<and> files s5 path = None
             \<and> events s5 = events s3 @ [CosUpload call, RemoveFile path]))
     \<and> (\<forall>e. uploaded = Inl e \<longrightarrow>
          endpoint cfg w req s = (Error 500 (ProcessingFailed e), s4)
          \<and> files s4 path \<noteq> None
          \<and> (\<exists>es. events s4 = events s @ es \<and> (\<forall>p. RemoveFile p \<notin> set es)))"
proof -
  let ?call = "\<lparr>cos_region = region cfg, cos_secret_id = secret_id cfg,
      cos_secret_key = secret_key cfg, cos_bucket = bucket cfg,
      cos_local_path = os_path_join (image_output_path cfg) fname, cos_key = fname\<rparr>"
  have present: "files s3 path \<noteq> None"
    using download_image_Inr(1) [OF dl] .
  have s4: "s4 = add_events [CosUpload ?call] s3"
    using upload_to_cos_snd [of w "region cfg" "secret_id cfg" "secret_key cfg" "bucket cfg"
        fname "image_output_path cfg" s3] up by simp
  have present4: "files s4 path \<noteq> None"
    using present by (simp add: s4)
  have ok: "\<exists>s5 call. endpoint cfg w req s = (Success cos_url url, s5)
             \<and> files s5 path = None
             \<and> events s5 = events s3 @ [CosUpload call, RemoveFile path]"
    if u: "uploaded = Inr cos_url" for cos_url
  proof -
    let ?s5 = "add_events [RemoveFile path] (s4\<lparr>files := (files s4)(path := None)\<rparr>)"
    have rm: "os_remove path s4 = (Inr (), ?s5)"
      using os_remove_present [OF present4] .
    have "endpoint cfg w req s = (Success cos_url url, ?s5)"
      using auth valid create poll dl up u rm
      by (simp add: endpoint_def face_swap_def face_swap_try_def)
    moreover have "files ?s5 path = None" by simp
    moreover have "events ?s5 = events s3 @ [CosUpload ?call, RemoveFile path]"
      by (simp add: s4 add_events_def)
    ultimately show ?thesis by blast
  qed
  have bad: "endpoint cfg w req s = (Error 500 (ProcessingFailed e), s4)
          \<and> files s4 path \<noteq> None
          \<and> (\<exists>es. events s4 = events s @ es \<and> (\<forall>p. RemoveFile p \<notin> set es))"
    if u: "uploaded = Inl e" for e
  proof -
    have e1: "endpoint cfg w req s = (Error 500 (ProcessingFailed e), s4)"
      using auth valid create poll dl up u
      by (simp add: endpoint_def face_swap_def face_swap_try_def is_Exception_all)
    have c: "events s1 = events s @ [VendorCreateJob (job_files (source_data req) (target_data req))]"
      using create_face_swap_job_snd [of w "source_data req" "target_data req" s] create
      by (simp add: add_events_def)
    obtain ps where ps: "s2 = add_events ps s1" "\<forall>p. RemoveFile p \<notin> set ps"
      using poll_loop_no_remove [of w job default_interval "nat default_retries" 0 s1] poll
      by (auto simp: get_face_swap_result_def)
    obtain ds where ds: "events s3 = events s2 @ ds" "\<forall>p. RemoveFile p \<notin> set ds"
      using download_image_Inr(2) [OF dl] by blast
    let ?es = "[VendorCreateJob (job_files (source_data req) (target_data req))] @ ps @ ds
               @ [CosUpload ?call]"
    have "events s4 = events s @ ?es"
      by (simp add: s4 ds(1) ps(1) c add_events_def)
    moreover have "\<forall>p. RemoveFile p \<notin> set ?es"
      using ps(2) ds(2) by simp
    ultimately have "\<exists>es. events s4 = events s @ es \<and> (\<forall>p. RemoveFile p \<notin> set es)"
      by blast
    with e1 present4 show ?thesis by blast
  qed
  from present ok bad show ?thesis by blast
qed

lemma get_url_example [simp]: "get_url (example_world c p cr) u = Inr image_resp"
  by (simp add: example_world_def)

lemma str_nat_1234: "str_nat 1234 = ''1234''"
  by (simp add: str_nat.simps digit_char_def)

lemma generate_filename_example:
  "generate_filename (example_world c p cr) ''jpg'' = ''faceswap_20240101120000_1234.jpg''"
  by (simp add: generate_filename_def example_world_def str_nat_1234)

lemma os_path_join_example:
  "os_path_join ''./output'' ''faceswap_20240101120000_1234.jpg''
   = ''./output/faceswap_20240101120000_1234.jpg''"
  by (simp add: os_path_join_def startswith_def)

lemma download_image_fst:
  assumes "get_url w url = Inr r" and "\<not> (400 \<le> status_code r \<and> status_code r < 600)"
  shows "fst (download_image w url out s)
         = Inr (generate_filename w ''jpg'', os_path_join out (generate_filename w ''jpg''))"
  using assms by (simp add: download_image_def Let_def)

lemma upload_to_cos_fst:
  assumes "cos_upload_file w
             \<lparr>cos_region = rgn, cos_secret_id = sid, cos_secret_key = skey,
              cos_bucket = bkt, cos_local_path = os_path_join base k, cos_key = k\<rparr>
           = Inr resp"
  shows "fst (upload_to_cos w rgn sid skey bkt k base s)
         = (if resp ''ETag'' \<noteq> None
            then Inr (''https://'' @ py_str bkt @ ''.cos.'' @ py_str rgn @ ''.myqcloud.com/'' @ k)
            else Inl (Exception msg_upload_failed))"
  using assms by (simp add: upload_to_cos_def Let_def)

lemma example_request_ok:
  "verify_auth_token (valid_tokens example_config) (authorization example_request) = Inr ''token1''"
  "validate_image (source_data example_request)"
  "validate_image (target_data example_request)"
  by code_simp+

lemma text_request_bad:
  "verify_auth_token (valid_tokens example_config) (authorization text_request) = Inr ''token1''"
  "\<not> validate_image (source_data text_request)"
  by code_simp+

theorem artifact_removed_only_on_success_witness:
  "fst (endpoint example_config (example_world created_resp (\<lambda>k. Inr done_resp) etag_resp)
          example_request initial_state)
     = Success ''https://faces-1250000000.cos.ap-guangzhou.myqcloud.com/faceswap_20240101120000_1234.jpg''
         (JStr ''https://vendor/out.jpg'')
   \<and> files (snd (endpoint example_config
                   (example_world created_resp (\<lambda>k. Inr done_resp) etag_resp)
                   example_request initial_state))
        ''./output/faceswap_20240101120000_1234.jpg'' = None
   \<and> fst (endpoint example_config (example_world created_resp (\<lambda>k. Inr done_resp) Map.empty)
          example_request initial_state)
     = Error 500 (ProcessingFailed (Exception msg_upload_failed))
   \<and> files (snd (endpoint example_config
                   (example_world created_resp (\<lambda>k. Inr done_resp) Map.empty)
                   example_request initial_state))
        ''./output/faceswap_20240101120000_1234.jpg'' \<noteq> None"
proof -
  let ?url = "JStr ''https://vendor/out.jpg''"
  let ?fname = "''faceswap_20240101120000_1234.jpg''"
  let ?path = "''./output/faceswap_20240101120000_1234.jpg''"
  have run: "\<exists>s3 s4.
      files s3 ?path \<noteq> None
      \<and> (\<forall>cos_url. fst (upload_to_cos w (region example_config) (secret_id example_config)
               (secret_key example_config) (bucket example_config) ?fname
               (image_output_path example_config) s3) = Inr cos_url \<longrightarrow>
          (\<exists>s5 call. endpoint example_config w example_request initial_state
                 = (Success cos_url ?url, s5)
             \<and> files s5 ?path = None
             \<and> events s5 = events s3 @ [CosUpload call, RemoveFile ?path]))
      \<and> (\<forall>e. fst (upload_to_cos w (region example_config) (secret_id example_config)
               (secret_key example_config) (bucket example_config) ?fname
               (image_output_path example_config) s3) = Inl e \<longrightarrow>
          endpoint example_config w example_request initial_state
            = (Error 500 (ProcessingFailed e), s4)
          \<and> files s4 ?path \<noteq> None
          \<and> (\<exists>es. events s4 = events initial_state @ es \<and> (\<forall>p. RemoveFile p \<notin> set es)))"
    if w: "w = example_world created_resp (\<lambda>k. Inr done_resp) cr" for w cr
  proof -
    let ?s1 = "snd (create_face_swap_job w (source_data example_request)
                 (target_data example_request) initial_state)"
    let ?s2 = "snd (get_face_swap_result w (JStr ''J1'') default_retries default_interval ?s1)"
    let ?s3 = "snd (download_image w ?url (image_output_path example_config) ?s2)"
    let ?up = "upload_to_cos w (region example_config) (secret_id example_config)
               (secret_key example_config) (bucket example_config) ?fname
               (image_output_path example_config) ?s3"
    have "create_job_result created_resp = Inr (JStr ''J1'')"
      by (simp add: create_job_result_def created_resp_def vendor_resp_def bind_exn_def)
    then have create: "create_face_swap_job w (source_data example_request)
        (target_data example_request) initial_state = (Inr (JStr ''J1''), ?s1)"
      using create_face_swap_job_fst [of w "source_data example_request"
          "target_data example_request" created_resp initial_state]
      by (simp add: w prod_eq_iff)
    have "get_face_swap_result w (JStr ''J1'') default_retries default_interval ?s1
          = (Inr ?url, add_events (poll_trace (JStr ''J1'') 2 0 @ [VendorGetJob (JStr ''J1'')]) ?s1)"
      unfolding get_face_swap_result_def default_retries_def default_interval_def
      using poll_success [of 0 "nat 30" w "JStr ''J1''" done_resp ?url "[]" 2 ?s1]
      by (simp add: w done_resp_facts)
    then have poll: "get_face_swap_result w (JStr ''J1'') default_retries default_interval ?s1
          = (Inr ?url, ?s2)"
      by simp
    have "fst (download_image w ?url (image_output_path example_config) ?s2)
          = Inr (?fname, ?path)"
      using download_image_fst [of w ?url image_resp "image_output_path example_config" ?s2]
      by (simp add: w image_resp_def generate_filename_example example_config_def
          os_path_join_example)
    then have dl: "download_image w ?url (image_output_path example_config) ?s2
          = (Inr (?fname, ?path), ?s3)"
      by (simp add: prod_eq_iff)
    have up: "?up = (fst ?up, snd ?up)" by simp
    from artifact_removed_only_on_success
      [OF example_request_ok(1) example_request_ok(2) example_request_ok(3) create poll dl up]
    show ?thesis by blast
  qed
  let ?ok = "example_world created_resp (\<lambda>k. Inr done_resp) etag_resp"
  let ?bad = "example_world created_resp (\<lambda>k. Inr done_resp) Map.empty"
  have u1: "fst (upload_to_cos ?ok (region example_config) (secret_id example_config)
               (secret_key example_config) (bucket example_config) ?fname
               (image_output_path example_config) s3)
     = Inr ''https://faces-1250000000.cos.ap-guangzhou.myqcloud.com/faceswap_20240101120000_1234.jpg''"
    for s3
    using upload_to_cos_fst [of ?ok "region example_config" "secret_id example_config"
        "secret_key example_config" "bucket example_config" "image_output_path example_config"
        ?fname etag_resp s3]
    by (simp add: example_config_def etag_resp_def)
  have u2: "fst (upload_to_cos ?bad (region example_config) (secret_id example_config)
               (secret_key example_config) (bucket example_config) ?fname
               (image_output_path example_config) s3)
     = Inl (Exception msg_upload_failed)" for s3
    using upload_to_cos_fst [of ?bad "region example_config" "secret_id example_config"
        "secret_key example_config" "bucket example_config" "image_output_path example_config"
        ?fname Map.empty s3]
    by simp
  from run [of ?ok etag_resp] u1 have
    "\<exists>s5. endpoint example_config ?ok example_request initial_state
        = (Success ''https://faces-1250000000.cos.ap-guangzhou.myqcloud.com/faceswap_20240101120000_1234.jpg'' ?url, s5)
      \<and> files s5 ?path = None"
    by (metis (no_types, lifting))
  moreover from run [of ?bad Map.empty] u2 have
    "\<exists>s4. endpoint example_config ?bad example_request initial_state
        = (Error 500 (ProcessingFailed (Exception msg_upload_failed)), s4)
      \<and> files s4 ?path \<noteq> None"
    by (metis (no_types, lifting))
  ultimately show ?thesis by auto
qed

text \<open>
  C1 (what the code does). A request that passes authentication and has an upload
  without a recognised signature raises the 400 inside the \<open>try\<close>; the
  \<open>except Exception\<close> clause catches it, so the endpoint answers 500 with the 400 as the
  reported cause. The state is unchanged: no call went to the vendor.
\<close>

theorem unsupported_format_is_caught:
  assumes "verify_auth_token (valid_tokens cfg) (authorization req) = Inr tok"
    and "\<not> validate_image (source_data req) \<or> \<not> validate_image (target_data req)"
  shows "endpoint cfg w req s
         = (Error 500 (ProcessingFailed (HTTPException 400 (Detail msg_unsupported))), s)"
  using assms by (auto simp: endpoint_def face_swap_def face_swap_try_def)

theorem unsupported_format_is_caught_witness:
  "verify_auth_token (valid_tokens example_config) (authorization text_request) = Inr ''token1''
   \<and> \<not> validate_image (source_data text_request)
   \<and> endpoint example_config (example_world created_resp (\<lambda>k. Inr done_resp) etag_resp)
        text_request initial_state
     = (Error 500 (ProcessingFailed (HTTPException 400 (Detail msg_unsupported))), initial_state)
   \<and> events initial_state = []"
  using text_request_bad
    unsupported_format_is_caught [OF text_request_bad(1), where s = initial_state
      and w = "example_world created_resp (\<lambda>k. Inr done_resp) etag_resp"]
  by (simp add: initial_state_def)

subsection \<open>Authentication at the endpoint\<close>

lemma endpoint_rejected:
  "verify_auth_token (valid_tokens cfg) (authorization req) = Inl (HTTPException c d) \<Longrightarrow>
   endpoint cfg w req s = (Error c d, s)"
  by (simp add: endpoint_def)

lemma endpoint_admitted:
  "verify_auth_token (valid_tokens cfg) (authorization req) = Inr tok \<Longrightarrow>
   endpoint cfg w req s
   = (case face_swap cfg w req s of
        (Inr (cos_url, result_url), s') \<Rightarrow> (Success cos_url result_url, s')
      | (Inl e, s') \<Rightarrow> (error_response e, s'))"
  by (simp add: endpoint_def)

text \<open>
  C3, as the specification states it, answers 401 for an absent header only, and 403
  whenever the scheme is not Bearer or the token is not in the allow-list. A header
  that is present and empty has the empty scheme and the empty token, which the default
  allow-list does not hold; the endpoint answers it with 401.
\<close>

theorem empty_header_counterexample:
  "authorization (header_request []) = Some []
   \<and> partition_space [] = ([], [], [])
   \<and> py_lower [] \<noteq> ''bearer''
   \<and> [] \<notin> set (valid_tokens example_config)
   \<and> endpoint example_config (example_world created_resp (\<lambda>k. Inr done_resp) etag_resp)
        (header_request []) initial_state
     = (Error 401 (Detail ''Missing Authorization Header''), initial_state)
   \<and> Error 401 (Detail ''Missing Authorization Header'')
       \<noteq> Error 403 (Detail ''Invalid or Expired Token'')"
  by (simp add: header_request_def example_config_def py_lower_def endpoint_def
      verify_auth_token_def)

text \<open>
  C3, amended. The endpoint answers 401 when the header is absent or empty. A non-empty
  header is read as scheme and token around its first space, the token being empty when
  there is no space: the endpoint answers 403 when the scheme is not Bearer (in any
  capitalisation) or the token is not in the allow-list; otherwise authentication
  succeeds with that token and the answer is the handler's, which is the success body or
  a 500 and never a 401 or 403.
\<close>

theorem endpoint_authentication:
  fixes cfg :: config and w :: world and req :: request and s :: sys_state
  defines "proceeds \<equiv>
     (case face_swap cfg w req s of
        (Inr (cos_url, result_url), s') \<Rightarrow> (Success cos_url result_url, s')
      | (Inl e, s') \<Rightarrow> (error_response e, s'))"
  shows
    "(authorization req = None \<or> authorization req = Some []
        \<longrightarrow> endpoint cfg w req s = (Error 401 (Detail ''Missing Authorization Header''), s))
     \<and> (authorization req = Some (sch @ '' '' @ tok) \<and> CHR '' '' \<notin> set sch
          \<and> (py_lower sch \<noteq> ''bearer'' \<or> tok \<notin> set (valid_tokens cfg))
        \<longrightarrow> endpoint cfg w req s = (Error 403 (Detail ''Invalid or Expired Token''), s))
     \<and> (authorization req = Some (sch @ '' '' @ tok) \<and> CHR '' '' \<notin> set sch
          \<and> py_lower sch = ''bearer'' \<and> tok \<in> set (valid_tokens cfg)
        \<longrightarrow> verify_auth_token (valid_tokens cfg) (authorization req) = Inr tok
            \<and> endpoint cfg w req s = proceeds)
     \<and> (authorization req = Some h \<and> h \<noteq> [] \<and> CHR '' '' \<notin> set h
          \<and> (py_lower h \<noteq> ''bearer'' \<or> [] \<notin> set (valid_tokens cfg))
        \<longrightarrow> endpoint cfg w req s = (Error 403 (Detail ''Invalid or Expired Token''), s))
     \<and> (authorization req = Some h \<and> h \<noteq> [] \<and> CHR '' '' \<notin> set h
          \<and> py_lower h = ''bearer'' \<and> [] \<in> set (valid_tokens cfg)
        \<longrightarrow> verify_auth_token (valid_tokens cfg) (authorization req) = Inr []
            \<and> endpoint cfg w req s = proceeds)
     \<and> (\<forall>c d s'. proceeds = (Error c d, s') \<longrightarrow> c = 500)"
proof -
  let ?vt = "valid_tokens cfg"
  have p1: "authorization req = None \<or> authorization req = Some []
        \<longrightarrow> endpoint cfg w req s = (Error 401 (Detail ''Missing Authorization Header''), s)"
    using endpoint_rejected [of cfg req 401 "Detail ''Missing Authorization Header''" w s]
      verify_auth_token_split(1,2) [of ?vt]
    by auto
  have p2: "authorization req = Some (sch @ '' '' @ tok) \<and> CHR '' '' \<notin> set sch
          \<and> (py_lower sch \<noteq> ''bearer'' \<or> tok \<notin> set ?vt)
        \<longrightarrow> endpoint cfg w req s = (Error 403 (Detail ''Invalid or Expired Token''), s)"
    using endpoint_rejected [of cfg req 403 "Detail ''Invalid or Expired Token''" w s]
      verify_auth_token_split(3) [of sch ?vt tok]
    by auto
  have p3: "authorization req = Some (sch @ '' '' @ tok) \<and> CHR '' '' \<notin> set sch
          \<and> py_lower sch = ''bearer'' \<and> tok \<in> set ?vt
        \<longrightarrow> verify_auth_token ?vt (authorization req) = Inr tok
            \<and> endpoint cfg w req s = proceeds"
    unfolding proceeds_def
    using endpoint_admitted [of cfg req tok w s] verify_auth_token_split(3) [of sch ?vt tok]
    by auto
  have p4: "authorization req = Some h \<and> h \<noteq> [] \<and> CHR '' '' \<notin> set h
          \<and> (py_lower h \<noteq> ''bearer'' \<or> [] \<notin> set ?vt)
        \<longrightarrow> endpoint cfg w req s = (Error 403 (Detail ''Invalid or Expired Token''), s)"
    using endpoint_rejected [of cfg req 403 "Detail ''Invalid or Expired Token''" w s]
      verify_auth_token_split(4) [of h ?vt]
    by auto
  have p5: "authorization req = Some h \<and> h \<noteq> [] \<and> CHR '' '' \<notin> set h
          \<and> py_lower h = ''bearer'' \<and> [] \<in> set ?vt
        \<longrightarrow> verify_auth_token ?vt (authorization req) = Inr []
            \<and> endpoint cfg w req s = proceeds"
    unfolding proceeds_def
    using endpoint_admitted [of cfg req "[]" w s] verify_auth_token_split(4) [of h ?vt]
    by auto
  have p6: "\<forall>c d s'. proceeds = (Error c d, s') \<longrightarrow> c = 500"
    unfolding proceeds_def
    by (auto simp: face_swap_def is_Exception_all split: prod.splits sum.splits)
  from p1 p2 p3 p4 p5 p6 show ?thesis by blast
qed


theorem endpoint_authentication_witness:
  "endpoint example_config (example_world created_resp (\<lambda>k. Inr done_resp) etag_resp)
       (example_request\<lparr>authorization := None\<rparr>) initial_state
     = (Error 401 (Detail ''Missing Authorization Header''), initial_state)
   \<and> endpoint example_config (example_world created_resp (\<lambda>k. Inr done_resp) etag_resp)
       (header_request []) initial_state
     = (Error 401 (Detail ''Missing Authorization Header''), initial_state)
   \<and> endpoint example_config (example_world created_resp (\<lambda>k. Inr done_resp) etag_resp)
       (header_request ''Basic token1'') initial_state
     = (Error 403 (Detail ''Invalid or Expired Token''), initial_state)
   \<and> endpoint example_config (example_world created_resp (\<lambda>k. Inr done_resp) etag_resp)
       (header_request ''Bearer token3'') initial_state
     = (Error 403 (Detail ''Invalid or Expired Token''), initial_state)
   \<and> endpoint example_config (example_world created_resp (\<lambda>k. Inr done_resp) etag_resp)
       (header_request ''Bearer'') initial_state
     = (Error 403 (Detail ''Invalid or Expired Token''), initial_state)
   \<and> verify_auth_token (valid_tokens example_config)
       (authorization (header_request ''BEARER token2'')) = Inr ''token2''
   \<and> endpoint example_config (example_world created_resp (\<lambda>k. Inr done_resp) etag_resp)
       (header_request ''BEARER token2'') initial_state
     = (case face_swap example_config
               (example_world created_resp (\<lambda>k. Inr done_resp) etag_resp)
               (header_request ''BEARER token2'') initial_state of
          (Inr (cos_url, result_url), s') \<Rightarrow> (Success cos_url result_url, s')
        | (Inl e, s') \<Rightarrow> (error_response e, s'))
   \<and> verify_auth_token (valid_tokens empty_token_config)
       (authorization (header_request ''bearer'')) = Inr []
   \<and> endpoint empty_token_config (example_world created_resp (\<lambda>k. Inr done_resp) etag_resp)
       (header_request ''bearer'') initial_state
     = (case face_swap empty_token_config
               (example_world created_resp (\<lambda>k. Inr done_resp) etag_resp)
               (header_request ''bearer'') initial_state of
          (Inr (cos_url, result_url), s') \<Rightarrow> (Success cos_url result_url, s')
        | (Inl e, s') \<Rightarrow> (error_response e, s'))"
proof -
  let ?w = "example_world created_resp (\<lambda>k. Inr done_resp) etag_resp"
  have a1: "authorization (example_request\<lparr>authorization := None\<rparr>) = None
            \<or> authorization (example_request\<lparr>authorization := None\<rparr>) = Some []"
    by simp
  have a2: "authorization (header_request []) = None \<or> authorization (header_request []) = Some []"
    by (simp add: header_request_def)
  have a3: "authorization (header_request ''Basic token1'') = Some (''Basic'' @ '' '' @ ''token1'')
      \<and> CHR '' '' \<notin> set ''Basic''
      \<and> (py_lower ''Basic'' \<noteq> ''bearer'' \<or> ''token1'' \<notin> set (valid_tokens example_config))"
    by code_simp
  have a4: "authorization (header_request ''Bearer token3'') = Some (''Bearer'' @ '' '' @ ''token3'')
      \<and> CHR '' '' \<notin> set ''Bearer''
      \<and> (py_lower ''Bearer'' \<noteq> ''bearer'' \<or> ''token3'' \<notin> set (valid_tokens example_config))"
    by code_simp
  have a5: "authorization (header_request ''Bearer'') = Some ''Bearer'' \<and> ''Bearer'' \<noteq> []
      \<and> CHR '' '' \<notin> set ''Bearer''
      \<and> (py_lower ''Bearer'' \<noteq> ''bearer'' \<or> [] \<notin> set (valid_tokens example_config))"
    by code_simp
  have a6: "authorization (header_request ''BEARER token2'') = Some (''BEARER'' @ '' '' @ ''token2'')
      \<and> CHR '' '' \<notin> set ''BEARER''
      \<and> py_lower ''BEARER'' = ''bearer'' \<and> ''token2'' \<in> set (valid_tokens example_config)"
    by code_simp
  have a7: "authorization (header_request ''bearer'') = Some ''bearer'' \<and> ''bearer'' \<noteq> []
      \<and> CHR '' '' \<notin> set ''bearer''
      \<and> py_lower ''bearer'' = ''bearer'' \<and> [] \<in> set (valid_tokens empty_token_config)"
    by code_simp
  note t = endpoint_authentication [where w = ?w and s = initial_state]
  have r1: "endpoint example_config ?w (example_request\<lparr>authorization := None\<rparr>) initial_state
     = (Error 401 (Detail ''Missing Authorization Header''), initial_state)"
    using a1 t [where cfg = example_config and req = "example_request\<lparr>authorization := None\<rparr>"]
    by blast
  have r2: "endpoint example_config ?w (header_request []) initial_state
     = (Error 401 (Detail ''Missing Authorization Header''), initial_state)"
    using a2 t [where cfg = example_config and req = "header_request []"] by blast
  have r3: "endpoint example_config ?w (header_request ''Basic token1'') initial_state
     = (Error 403 (Detail ''Invalid or Expired Token''), initial_state)"
    using a3 t [where cfg = example_config and req = "header_request ''Basic token1''"
        and sch = "''Basic''" and tok = "''token1''"]
    by blast
  have r4: "endpoint example_config ?w (header_request ''Bearer token3'') initial_state
     = (Error 403 (Detail ''Invalid or Expired Token''), initial_state)"
    using a4 t [where cfg = example_config and req = "header_request ''Bearer token3''"
        and sch = "''Bearer''" and tok = "''token3''"]
    by blast
  have r5: "endpoint example_config ?w (header_request ''Bearer'') initial_state
     = (Error 403 (Detail ''Invalid or Expired Token''), initial_state)"
    using a5 t [where cfg = example_config and req = "header_request ''Bearer''"
        and h = "''Bearer''"]
    by blast
  have r6: "verify_auth_token (valid_tokens example_config)
       (authorization (header_request ''BEARER token2'')) = Inr ''token2''
     \<and> endpoint example_config ?w (header_request ''BEARER token2'') initial_state
     = (case face_swap example_config ?w (header_request ''BEARER token2'') initial_state of
          (Inr (cos_url, result_url), s') \<Rightarrow> (Success cos_url result_url, s')
        | (Inl e, s') \<Rightarrow> (error_response e, s'))"
    using a6 t [where cfg = example_config and req = "header_request ''BEARER token2''"
        and sch = "''BEARER''" and tok = "''token2''"]
    by blast
  have r7: "verify_auth_token (valid_tokens empty_token_config)
       (authorization (header_request ''bearer'')) = Inr []
     \<and> endpoint empty_token_config ?w (header_request ''bearer'') initial_state
     = (case face_swap empty_token_config ?w (header_request ''bearer'') initial_state of
          (Inr (cos_url, result_url), s') \<Rightarrow> (Success cos_url result_url, s')
        | (Inl e, s') \<Rightarrow> (error_response e, s'))"
    using a7 t [where cfg = empty_token_config and req = "header_request ''bearer''"
        and h = "''bearer''"]
    by blast
  from r1 r2 r3 r4 r5 r6 r7 show ?thesis by (intro conjI) (erule conjunct1 conjunct2 | assumption)+
qed

end
